theory Spec2Isabelle
  imports Main "HOL-Library.AList" "HOL-Library.Multiset" "HOL-Library.Char_ord"
    "HOL-Library.List_Lexorder"
begin

section \<open>The host process of the TeX workspace (electron main process)\<close>

text \<open>
  This theory embeds the IPC handlers of the electron main process
  (\<^verbatim>\<open>tex-workspace/electron/src\<close>, the part after the preload bridge): the workspace
  directory, the sandboxed file handlers, the terminal registry and the tmux discovery.

  JavaScript strings are modelled as \<^typ>\<open>string\<close> (lists of 8-bit characters, read as
  ASCII); \<^verbatim>\<open>null\<close>/\<^verbatim>\<open>undefined\<close> as \<^term>\<open>None\<close>. Every call a handler makes into the
  platform (filesystem, node-pty, the window) is recorded, in program order, in a list of
  effects that the handler returns next to its result, and what the platform answers is
  read from a record of the host.
\<close>

subsection \<open>String primitives of JavaScript\<close>

text \<open>\<^verbatim>\<open>s.startsWith(p)\<close>: a comparison of code units, with no notion of path segments.\<close>

definition startsWith :: "string \<Rightarrow> string \<Rightarrow> bool" where
  "startsWith s p = (take (length p) s = p)"

text \<open>\<^verbatim>\<open>s.toLowerCase()\<close> on ASCII: the letters A-Z map to a-z, the rest is unchanged.\<close>

definition toLowerChar :: "char \<Rightarrow> char" where
  "toLowerChar c =
     (case map_of (zip ''ABCDEFGHIJKLMNOPQRSTUVWXYZ'' ''abcdefghijklmnopqrstuvwxyz'') c of
        Some l \<Rightarrow> l
      | None \<Rightarrow> c)"

definition toLowerCase :: "string \<Rightarrow> string" where
  "toLowerCase s = map toLowerChar s"

text \<open>
  \<^verbatim>\<open>s.split(sep)\<close> for a one-character separator: the pieces between the separators, in
  order; the empty string splits into one empty piece.
\<close>

fun split :: "char \<Rightarrow> string \<Rightarrow> string list" where
  "split sep [] = [[]]"
| "split sep (c # cs) =
     (let ps = split sep cs
      in if c = sep then [] # ps else (c # hd ps) # tl ps)"

text \<open>White space of ECMAScript within ASCII: TAB, LF, VT, FF, CR and the space.\<close>

definition isWhiteSpace :: "char \<Rightarrow> bool" where
  "isWhiteSpace c = (c \<in> set [CHR 0x09, CHR 0x0A, CHR 0x0B, CHR 0x0C, CHR 0x0D, CHR '' ''])"

definition trimStart :: "string \<Rightarrow> string" where
  "trimStart s = dropWhile isWhiteSpace s"

definition trim :: "string \<Rightarrow> string" where
  "trim s = rev (dropWhile isWhiteSpace (rev (dropWhile isWhiteSpace s)))"

text \<open>
  A JavaScript number as far as \<^verbatim>\<open>parseInt\<close> produces one: \<^verbatim>\<open>NaN\<close>, an infinity, or a
  double whose value is an integer; \<open>Num n\<close> is the double with the exact value \<open>n\<close>. (The
  sign of zero is not modelled.)
\<close>

datatype js_number = NaN | Num int | PosInfinity | NegInfinity

fun negate :: "js_number \<Rightarrow> js_number" where
  "negate NaN = NaN"
| "negate (Num n) = Num (- n)"
| "negate PosInfinity = NegInfinity"
| "negate NegInfinity = PosInfinity"

text \<open>The number of binary digits of \<open>n\<close>.\<close>

fun bit_length :: "nat \<Rightarrow> nat" where
  "bit_length n = (if n = 0 then 0 else Suc (bit_length (n div 2)))"

text \<open>
  The double nearest to the natural number \<open>n\<close>, as the engine computes it from a digit
  string: a double has 53 significant binary digits, so a number below \<open>2^53\<close> is kept, and
  a longer one is cut to its leading 53 digits \<open>q\<close> and rounded to the nearest such number,
  to the even one of two equally near; what rounds to \<open>2^1024\<close> or more is \<^verbatim>\<open>Infinity\<close>.
\<close>

definition roundToDouble :: "nat \<Rightarrow> js_number" where
  "roundToDouble n =
     (if n < 2 ^ 53 then Num (int n)
      else let e = bit_length n - 53;
               q = n div 2 ^ e;
               r = n mod 2 ^ e;
               m = (if 2 ^ e < 2 * r \<or> (2 * r = 2 ^ e \<and> odd q) then q + 1 else q) * 2 ^ e
           in if 2 ^ 1024 \<le> m then PosInfinity else Num (int m))"

definition digitValue :: "char \<Rightarrow> nat option" where
  "digitValue c = map_of (zip ''0123456789'' [0 ..< 10]) c"

definition hexDigitValue :: "char \<Rightarrow> nat option" where
  "hexDigitValue c =
     map_of (zip ''0123456789abcdefABCDEF'' ([0 ..< 16] @ [10 ..< 16])) c"

text \<open>The value of a digit string in radix \<open>r\<close>, most significant digit first.\<close>

definition digitsValue :: "nat \<Rightarrow> nat list \<Rightarrow> nat" where
  "digitsValue r ds = foldl (\<lambda>acc d. acc * r + d) 0 ds"

text \<open>
  \<^verbatim>\<open>parseInt(s)\<close> with no radix: leading white space is skipped, one sign is read, the
  prefix \<^verbatim>\<open>0x\<close>/\<^verbatim>\<open>0X\<close> selects radix 16, and the longest run of digits is the value,
  rounded to a double; no digit at all gives \<^verbatim>\<open>NaN\<close>. The argument \<^verbatim>\<open>undefined\<close> is first turned into the string
  \<^verbatim>\<open>"undefined"\<close>, which has no digit.
\<close>

definition parseIntString :: "string \<Rightarrow> js_number" where
  "parseIntString s =
     (let s1 = trimStart s;
          neg = (s1 \<noteq> [] \<and> hd s1 = CHR ''-'');
          s2 = (if s1 \<noteq> [] \<and> (hd s1 = CHR ''+'' \<or> hd s1 = CHR ''-'') then tl s1 else s1);
          hex = (take 2 s2 = ''0x'' \<or> take 2 s2 = ''0X'');
          s3 = (if hex then drop 2 s2 else s2);
          dv = (if hex then hexDigitValue else digitValue);
          z = takeWhile (\<lambda>c. dv c \<noteq> None) s3
      in if z = [] then NaN
         else let number = roundToDouble (digitsValue (if hex then 16 else 10)
                                            (map (\<lambda>c. the (dv c)) z))
              in if neg then negate number else number)"

definition parseInt :: "string option \<Rightarrow> js_number" where
  "parseInt v = (case v of None \<Rightarrow> parseIntString ''undefined'' | Some s \<Rightarrow> parseIntString s)"

subsection \<open>The \<^verbatim>\<open>path\<close> module of Node.js on POSIX\<close>

text \<open>
  The walk of \<^verbatim>\<open>normalizeString\<close> over the segments of a path: empty segments and \<^verbatim>\<open>.\<close>
  are dropped; \<^verbatim>\<open>..\<close> removes the segment before it, and where there is none (or it is
  itself \<^verbatim>\<open>..\<close>) it is kept for a relative path and dropped for an absolute one.
\<close>

fun normalizeString :: "bool \<Rightarrow> string list \<Rightarrow> string list \<Rightarrow> string list" where
  "normalizeString allowAboveRoot res [] = res"
| "normalizeString allowAboveRoot res (seg # segs) =
     (if seg = [] \<or> seg = ''.'' then normalizeString allowAboveRoot res segs
      else if seg = ''..'' then
        (if res \<noteq> [] \<and> last res \<noteq> ''..''
           then normalizeString allowAboveRoot (butlast res) segs
         else if allowAboveRoot
           then normalizeString allowAboveRoot (res @ [''..'']) segs
         else normalizeString allowAboveRoot res segs)
      else normalizeString allowAboveRoot (res @ [seg]) segs)"

fun joinSegments :: "string list \<Rightarrow> string" where
  "joinSegments [] = []"
| "joinSegments [s] = s"
| "joinSegments (s # t # ss) = s @ ''/'' @ joinSegments (t # ss)"

definition isAbsolute :: "string \<Rightarrow> bool" where
  "isAbsolute p = (p \<noteq> [] \<and> hd p = CHR ''/'')"

text \<open>\<^verbatim>\<open>path.normalize(p)\<close>.\<close>

definition normalize :: "string \<Rightarrow> string" where
  "normalize p =
     (if p = [] then ''.''
      else let trailingSeparator = (last p = CHR ''/'');
               res = joinSegments (normalizeString (\<not> isAbsolute p) [] (split CHR ''/'' p))
           in if res = [] then (if isAbsolute p then ''/'' else if trailingSeparator then ''./'' else ''.'')
              else (if isAbsolute p then ''/'' else []) @ res
                   @ (if trailingSeparator then ''/'' else []))"

text \<open>\<^verbatim>\<open>path.join(a, b)\<close>: the non-empty arguments joined by a slash, then normalized.\<close>

definition path_join :: "string \<Rightarrow> string \<Rightarrow> string" where
  "path_join a b =
     (let joined = (if a = [] then b else if b = [] then a else a @ ''/'' @ b)
      in if joined = [] then ''.'' else normalize joined)"

text \<open>
  \<^verbatim>\<open>path.resolve(p)\<close> relative to the working directory \<open>cwd\<close> of the process (an
  absolute path): the result is absolute, normalized and has no trailing slash.
\<close>

definition path_resolve :: "string \<Rightarrow> string \<Rightarrow> string" where
  "path_resolve cwd p =
     (let full = (if p = [] then cwd else if isAbsolute p then p else cwd @ ''/'' @ p)
      in ''/'' @ joinSegments (normalizeString False [] (split CHR ''/'' full)))"

text \<open>\<^verbatim>\<open>path.basename(p)\<close>: the last non-empty segment, or the empty string.\<close>

definition basename :: "string \<Rightarrow> string" where
  "basename p =
     (let segs = filter (\<lambda>s. s \<noteq> []) (split CHR ''/'' p)
      in if segs = [] then [] else last segs)"

text \<open>
  \<^verbatim>\<open>path.extname(p)\<close>: from the last dot of the base name to its end; empty when the base
  name has no dot, when its only dot is its first character, or when it is \<^verbatim>\<open>..\<close>.
\<close>

definition extname :: "string \<Rightarrow> string" where
  "extname p =
     (let b = basename p;
          afterDot = rev (takeWhile (\<lambda>c. c \<noteq> CHR ''.'') (rev b));
          startDot = length b - length afterDot - 1
      in if CHR ''.'' \<notin> set b \<or> startDot = 0 \<or> b = ''..'' then []
         else drop startDot b)"

text \<open>
  \<^verbatim>\<open>dirPath.replace(/^~/, os.homedir())\<close>: a leading tilde is replaced by the home
  directory (which is taken to hold no \<^verbatim>\<open>$\<close> replacement pattern).
\<close>

definition expandTilde :: "string \<Rightarrow> string \<Rightarrow> string" where
  "expandTilde home dirPath =
     (if dirPath \<noteq> [] \<and> hd dirPath = CHR ''~'' then home @ tl dirPath else dirPath)"

subsection \<open>The platform: filesystem, node-pty, the operating system\<close>

text \<open>What \<^verbatim>\<open>fs.readdirSync(p, {withFileTypes: true})\<close> yields for one child.\<close>

record dirent =
  dirent_name :: string
  dirent_isDirectory :: bool

text \<open>What \<^verbatim>\<open>fs.statSync\<close> yields, as far as the handlers read it.\<close>

record stats =
  stats_isDirectory :: bool
  stats_mtimeMs :: nat

text \<open>A pseudo-terminal object of node-pty: each spawn yields a new one.\<close>

type_synonym pty_term = nat

text \<open>The options object handed to \<^verbatim>\<open>pty.spawn\<close> (its \<^verbatim>\<open>env\<close> is the process environment).\<close>

record spawn_options =
  spawn_name :: string
  spawn_cols :: int
  spawn_rows :: int
  spawn_cwd :: string

text \<open>
  The answers of the platform. A call that can throw answers with \<^term>\<open>Inl\<close> of the
  message (or \<^term>\<open>Some\<close> of it, when it yields no value); \<^verbatim>\<open>localeCompare\<close> is the
  collation of the host's locale.
\<close>

record host =
  homedir :: string
  process_cwd :: string
  env_SHELL :: "string option"
  pty_loaded :: bool
  statSync :: "string \<Rightarrow> string + stats"
  readdirSync :: "string \<Rightarrow> string + dirent list"
  readFileSync :: "string \<Rightarrow> string + string"
  writeFileSync :: "string \<Rightarrow> string \<Rightarrow> string option"
  spawn_throws :: "string \<Rightarrow> string list \<Rightarrow> spawn_options \<Rightarrow> string option"
  write_throws :: "pty_term \<Rightarrow> string \<Rightarrow> string option"
  resize_throws :: "pty_term \<Rightarrow> int \<Rightarrow> int \<Rightarrow> string option"
  kill_throws :: "pty_term \<Rightarrow> string option"
  localeCompare :: "string \<Rightarrow> string \<Rightarrow> int"

text \<open>
  \<^verbatim>\<open>fs.existsSync(p)\<close>: whether the path can be stat'ed; it never throws. (The
  filesystem is taken not to change while one handler runs, so a path that exists can be
  stat'ed by the next call.)
\<close>

definition existsSync :: "host \<Rightarrow> string \<Rightarrow> bool" where
  "existsSync h p = (case statSync h p of Inl _ \<Rightarrow> False | Inr _ \<Rightarrow> True)"

text \<open>The calls into the platform and the messages pushed to the window.\<close>

datatype effect =
    FsExists string
  | FsStat string
  | FsReaddir string
  | FsReadFile string
  | FsWriteFile string string
  | PtySpawn string "string list" spawn_options
  | PtyWrite pty_term string
  | PtyResize pty_term int int
  | PtyKill pty_term
  | SendTerminalOutput string string
  | SendTerminalClosed string
  | ConsoleError string

subsection \<open>The state of the main process\<close>

text \<open>
  \<^verbatim>\<open>currentDirectory\<close> and the \<^verbatim>\<open>terminals\<close> map are the module's variables; a \<^verbatim>\<open>Map\<close>
  keeps its keys in insertion order, so it is an association list. \<open>mainWindow\<close> says
  whether the test \<^verbatim>\<open>mainWindow && !mainWindow.isDestroyed() && mainWindow.webContents &&
  !mainWindow.webContents.isDestroyed()\<close> holds. \<open>listeners\<close> holds, for every spawned
  terminal, the \<^verbatim>\<open>termId\<close> that its \<^verbatim>\<open>onData\<close> and \<^verbatim>\<open>onExit\<close> closures captured, and
  \<open>next_term\<close> is the terminal object the next spawn creates.
\<close>

record app_state =
  currentDirectory :: "string option"
  terminals :: "(string \<times> pty_term) list"
  mainWindow :: bool
  listeners :: "(pty_term \<times> string) list"
  next_term :: pty_term

definition initial_state :: app_state where
  "initial_state =
     \<lparr>currentDirectory = None, terminals = [], mainWindow = True, listeners = [], next_term = 0\<rparr>"

text \<open>Truthiness of a value that is a string, \<^verbatim>\<open>null\<close> or \<^verbatim>\<open>undefined\<close>, and of a number.\<close>

definition truthy :: "string option \<Rightarrow> bool" where
  "truthy v = (case v of None \<Rightarrow> False | Some s \<Rightarrow> s \<noteq> [])"

definition truthy_num :: "int option \<Rightarrow> bool" where
  "truthy_num v = (case v of None \<Rightarrow> False | Some n \<Rightarrow> n \<noteq> 0)"

subsection \<open>Directory handlers\<close>

text \<open>
  The object \<^verbatim>\<open>{path, name}\<close>, or \<^verbatim>\<open>{error}\<close>; \<open>DirectoryThrew\<close> stands for an
  exception that leaves the handler (the caller's promise is rejected).
\<close>

datatype directory_result =
    DirectoryInfo string string
  | DirectoryError string
  | DirectoryThrew string

text \<open>The handler of \<^verbatim>\<open>set-directory\<close>.\<close>

definition set_directory :: "host \<Rightarrow> app_state \<Rightarrow> string \<Rightarrow> app_state \<times> effect list \<times> directory_result" where
  "set_directory h s dirPath =
     (let expandedPath = expandTilde (homedir h) dirPath;
          fullPath = path_resolve (process_cwd h) expandedPath
      in if \<not> existsSync h fullPath
           then (s, [FsExists fullPath], DirectoryError ''Directory not found'')
         else case statSync h fullPath of
                Inr st \<Rightarrow>
                  if stats_isDirectory st
                    then (s\<lparr>currentDirectory := Some fullPath\<rparr>,
                          [FsExists fullPath, FsStat fullPath],
                          DirectoryInfo fullPath (basename fullPath))
                  else (s, [FsExists fullPath, FsStat fullPath],
                        DirectoryError ''Directory not found'')
              | Inl msg \<Rightarrow> (s, [FsExists fullPath, FsStat fullPath], DirectoryThrew msg))"

text \<open>The handler of \<^verbatim>\<open>get-current-directory\<close>.\<close>

definition get_current_directory :: "app_state \<Rightarrow> directory_result option" where
  "get_current_directory s =
     (if truthy (currentDirectory s)
        then Some (DirectoryInfo (the (currentDirectory s)) (basename (the (currentDirectory s))))
      else None)"

subsection \<open>File handlers\<close>

definition ALLOWED_EXTENSIONS :: "string list" where
  "ALLOWED_EXTENSIONS =
     [''.tex'', ''.bib'', ''.sty'', ''.cls'', ''.txt'', ''.md'', ''.pdf'', ''.jpg'', ''.jpeg'',
      ''.png'', ''.gif'', ''.svg'']"

definition TEXT_EXTENSIONS :: "string list" where
  "TEXT_EXTENSIONS = [''.tex'', ''.bib'', ''.sty'', ''.cls'', ''.txt'', ''.md'']"

text \<open>One element of the \<^verbatim>\<open>files\<close> array of a listing.\<close>

record file_entry =
  entry_name :: string
  entry_path :: string
  entry_isDirectory :: bool
  entry_isText :: bool
  entry_isPdf :: bool
  entry_isImage :: bool

text \<open>The two \<^verbatim>\<open>filter\<close> callbacks and the \<^verbatim>\<open>map\<close> callback of the listing.\<close>

definition not_hidden :: "dirent \<Rightarrow> bool" where
  "not_hidden entry = (\<not> startsWith (dirent_name entry) ''.'')"

definition allowed_entry :: "dirent \<Rightarrow> bool" where
  "allowed_entry entry =
     (if dirent_isDirectory entry then True
      else toLowerCase (extname (dirent_name entry)) \<in> set ALLOWED_EXTENSIONS)"

definition to_file_entry :: "string \<Rightarrow> dirent \<Rightarrow> file_entry" where
  "to_file_entry relativePath entry =
     (let ext = toLowerCase (extname (dirent_name entry))
      in \<lparr>entry_name = dirent_name entry,
          entry_path = (if relativePath \<noteq> [] then path_join relativePath (dirent_name entry)
                        else dirent_name entry),
          entry_isDirectory = dirent_isDirectory entry,
          entry_isText = (\<not> dirent_isDirectory entry \<and> ext \<in> set TEXT_EXTENSIONS),
          entry_isPdf = (ext = ''.pdf''),
          entry_isImage = (ext \<in> set [''.jpg'', ''.jpeg'', ''.png'', ''.gif'', ''.svg''])\<rparr>)"

text \<open>The comparison callback of the listing's \<^verbatim>\<open>sort\<close>.\<close>

definition compare_entries :: "host \<Rightarrow> file_entry \<Rightarrow> file_entry \<Rightarrow> int" where
  "compare_entries h a b =
     (if entry_isDirectory a \<noteq> entry_isDirectory b
        then (if entry_isDirectory a then - 1 else 1)
      else localeCompare h (toLowerCase (entry_name a)) (toLowerCase (entry_name b)))"

text \<open>
  \<^verbatim>\<open>Array.prototype.sort(compare)\<close>: a stable sort. For a consistent comparison function
  its result is the one sorted arrangement that keeps equal elements in their order,
  whichever algorithm the engine runs; here it is computed by insertion from the right,
  where the element \<open>x\<close> goes before the first element that it does not compare greater
  than.
\<close>

fun sort_insert :: "('a \<Rightarrow> 'a \<Rightarrow> int) \<Rightarrow> 'a \<Rightarrow> 'a list \<Rightarrow> 'a list" where
  "sort_insert compare x [] = [x]"
| "sort_insert compare x (y # ys) =
     (if compare x y \<le> 0 then x # y # ys else y # sort_insert compare x ys)"

definition array_sort :: "('a \<Rightarrow> 'a \<Rightarrow> int) \<Rightarrow> 'a list \<Rightarrow> 'a list" where
  "array_sort compare xs = foldr (sort_insert compare) xs []"

text \<open>The result of \<^verbatim>\<open>list-files\<close>: \<^verbatim>\<open>{error, files}\<close> or \<^verbatim>\<open>{path, root, files}\<close>.\<close>

datatype list_result = ListError string "file_entry list" | Listing string string "file_entry list"

fun files_of :: "list_result \<Rightarrow> file_entry list" where
  "files_of (ListError msg files) = files"
| "files_of (Listing relativePath root files) = files"

text \<open>
  The handler of \<^verbatim>\<open>list-files\<close>; an argument that is \<^verbatim>\<open>undefined\<close> takes the default
  \<^verbatim>\<open>''\<close>.
\<close>

definition list_files :: "host \<Rightarrow> app_state \<Rightarrow> string option \<Rightarrow> effect list \<times> list_result" where
  "list_files h s arg =
     (let relativePath = (case arg of None \<Rightarrow> [] | Some p \<Rightarrow> p)
      in if \<not> truthy (currentDirectory s) then ([], ListError ''No directory opened'' [])
         else let root = the (currentDirectory s);
                  fullPath = (if relativePath \<noteq> [] then path_join root relativePath else root)
              in if \<not> startsWith fullPath root then ([], ListError ''Invalid path'' [])
                 else case readdirSync h fullPath of
                        Inl msg \<Rightarrow> ([FsReaddir fullPath], ListError msg [])
                      | Inr entries \<Rightarrow>
                          ([FsReaddir fullPath],
                           Listing relativePath root
                             (array_sort (compare_entries h)
                                (map (to_file_entry relativePath)
                                   (filter allowed_entry (filter not_hidden entries))))))"

text \<open>The result of \<^verbatim>\<open>read-file\<close>: \<^verbatim>\<open>{error}\<close> or \<^verbatim>\<open>{path, content, type: 'text'}\<close>.\<close>

datatype read_result = ReadError string | ReadOk string string

definition read_file :: "host \<Rightarrow> app_state \<Rightarrow> string option \<Rightarrow> effect list \<times> read_result" where
  "read_file h s relativePath =
     (if \<not> truthy (currentDirectory s) \<or> \<not> truthy relativePath
        then ([], ReadError ''Invalid request'')
      else let fullPath = path_join (the (currentDirectory s)) (the relativePath)
           in if \<not> startsWith fullPath (the (currentDirectory s))
                then ([], ReadError ''Invalid path'')
              else case readFileSync h fullPath of
                     Inl msg \<Rightarrow> ([FsReadFile fullPath], ReadError msg)
                   | Inr content \<Rightarrow> ([FsReadFile fullPath], ReadOk (the relativePath) content))"

text \<open>The result of \<^verbatim>\<open>save-file\<close>: \<^verbatim>\<open>{error}\<close> or \<^verbatim>\<open>{status: 'ok', path}\<close>.\<close>

datatype save_result = SaveError string | SaveOk string

definition save_file :: "host \<Rightarrow> app_state \<Rightarrow> string option \<Rightarrow> string \<Rightarrow> effect list \<times> save_result" where
  "save_file h s relativePath content =
     (if \<not> truthy (currentDirectory s) \<or> \<not> truthy relativePath
        then ([], SaveError ''Invalid request'')
      else let fullPath = path_join (the (currentDirectory s)) (the relativePath)
           in if \<not> startsWith fullPath (the (currentDirectory s))
                then ([], SaveError ''Invalid path'')
              else case writeFileSync h fullPath content of
                     Some msg \<Rightarrow> ([FsWriteFile fullPath content], SaveError msg)
                   | None \<Rightarrow> ([FsWriteFile fullPath content], SaveOk (the relativePath)))"

text \<open>The handler of \<^verbatim>\<open>get-file-path\<close>: the absolute path, or \<^verbatim>\<open>null\<close>.\<close>

definition get_file_path :: "host \<Rightarrow> app_state \<Rightarrow> string option \<Rightarrow> effect list \<times> string option" where
  "get_file_path h s relativePath =
     (if \<not> truthy (currentDirectory s) \<or> \<not> truthy relativePath then ([], None)
      else let fullPath = path_join (the (currentDirectory s)) (the relativePath)
           in if \<not> startsWith fullPath (the (currentDirectory s)) then ([], None)
              else if \<not> existsSync h fullPath then ([FsExists fullPath], None)
              else ([FsExists fullPath], Some fullPath))"

text \<open>The result of \<^verbatim>\<open>get-file-mtime\<close>: \<^verbatim>\<open>{mtime: null}\<close> or \<^verbatim>\<open>{mtime, path}\<close>.\<close>

datatype mtime_result = MtimeNull | Mtime nat string

definition get_file_mtime :: "host \<Rightarrow> app_state \<Rightarrow> string option \<Rightarrow> effect list \<times> mtime_result" where
  "get_file_mtime h s relativePath =
     (if \<not> truthy (currentDirectory s) \<or> \<not> truthy relativePath then ([], MtimeNull)
      else let fullPath = path_join (the (currentDirectory s)) (the relativePath)
           in if \<not> startsWith fullPath (the (currentDirectory s)) then ([], MtimeNull)
              else case statSync h fullPath of
                     Inl msg \<Rightarrow> ([FsStat fullPath], MtimeNull)
                   | Inr st \<Rightarrow> ([FsStat fullPath], Mtime (stats_mtimeMs st) (the relativePath)))"

subsection \<open>Terminal handlers\<close>

text \<open>The \<^verbatim>\<open>options\<close> argument of \<^verbatim>\<open>create-terminal\<close>; a missing field is \<^term>\<open>None\<close>.\<close>

record create_options =
  options_type :: "string option"
  options_session :: "string option"
  options_cols :: "int option"
  options_rows :: "int option"

text \<open>The result of \<^verbatim>\<open>create-terminal\<close>: \<^verbatim>\<open>{error}\<close> or \<^verbatim>\<open>{status: 'ok', termId}\<close>.\<close>

datatype create_result = CreateError string | CreateOk string

text \<open>The command line that \<^verbatim>\<open>create-terminal\<close> chooses.\<close>

definition spawn_command :: "host \<Rightarrow> create_options \<Rightarrow> string \<times> string list" where
  "spawn_command h options =
     (if options_type options = Some ''tmux'' \<and> truthy (options_session options)
        then (''/opt/homebrew/bin/tmux'', [''attach'', ''-t'', the (options_session options)])
      else ((if truthy (env_SHELL h) then the (env_SHELL h) else ''/bin/bash''), [''-l'']))"

definition spawn_settings :: "host \<Rightarrow> app_state \<Rightarrow> create_options \<Rightarrow> spawn_options" where
  "spawn_settings h s options =
     \<lparr>spawn_name = ''xterm-256color'',
      spawn_cols = (if truthy_num (options_cols options) then the (options_cols options) else 80),
      spawn_rows = (if truthy_num (options_rows options) then the (options_rows options) else 24),
      spawn_cwd = (if truthy (currentDirectory s) then the (currentDirectory s) else homedir h)\<rparr>"

text \<open>
  The handler of \<^verbatim>\<open>create-terminal\<close>. On a successful spawn the new terminal is stored
  under \<open>termId\<close> by \<^verbatim>\<open>terminals.set\<close> and its two listeners are bound.
\<close>

definition create_terminal :: "host \<Rightarrow> app_state \<Rightarrow> string \<Rightarrow> create_options \<Rightarrow> app_state \<times> effect list \<times> create_result" where
  "create_terminal h s termId options =
     (if \<not> pty_loaded h then (s, [], CreateError ''Terminal not available'')
      else let shell = fst (spawn_command h options);
               args = snd (spawn_command h options);
               settings = spawn_settings h s options
           in case spawn_throws h shell args settings of
                Some msg \<Rightarrow> (s, [PtySpawn shell args settings], CreateError msg)
              | None \<Rightarrow>
                  (s\<lparr>terminals := AList.update termId (next_term s) (terminals s),
                     listeners := listeners s @ [(next_term s, termId)],
                     next_term := Suc (next_term s)\<rparr>,
                   [PtySpawn shell args settings],
                   CreateOk termId))"

text \<open>The listener of \<^verbatim>\<open>terminal-input\<close>.\<close>

definition terminal_input :: "host \<Rightarrow> app_state \<Rightarrow> string \<Rightarrow> string \<Rightarrow> app_state \<times> effect list" where
  "terminal_input h s termId data =
     (case map_of (terminals s) termId of
        None \<Rightarrow> (s, [])
      | Some term \<Rightarrow>
          (case write_throws h term data of
             None \<Rightarrow> (s, [PtyWrite term data])
           | Some msg \<Rightarrow>
               (s\<lparr>terminals := AList.delete termId (terminals s)\<rparr>,
                [PtyWrite term data, ConsoleError ''Terminal write error:''])))"

text \<open>The listener of \<^verbatim>\<open>terminal-resize\<close>.\<close>

definition terminal_resize :: "host \<Rightarrow> app_state \<Rightarrow> string \<Rightarrow> int \<Rightarrow> int \<Rightarrow> app_state \<times> effect list" where
  "terminal_resize h s termId cols rows =
     (case map_of (terminals s) termId of
        None \<Rightarrow> (s, [])
      | Some term \<Rightarrow>
          (case resize_throws h term cols rows of
             None \<Rightarrow> (s, [PtyResize term cols rows])
           | Some msg \<Rightarrow>
               (s\<lparr>terminals := AList.delete termId (terminals s)\<rparr>,
                [PtyResize term cols rows, ConsoleError ''Terminal resize error:''])))"

text \<open>
  The result of \<^verbatim>\<open>close-terminal\<close>: \<^verbatim>\<open>{status: 'ok'}\<close>, or the exception of \<^verbatim>\<open>term.kill()\<close>,
  which the handler does not catch.
\<close>

datatype close_result = CloseOk | CloseThrew string

definition close_terminal :: "host \<Rightarrow> app_state \<Rightarrow> string \<Rightarrow> app_state \<times> effect list \<times> close_result" where
  "close_terminal h s termId =
     (case map_of (terminals s) termId of
        None \<Rightarrow> (s, [], CloseOk)
      | Some term \<Rightarrow>
          (case kill_throws h term of
             Some msg \<Rightarrow> (s, [PtyKill term], CloseThrew msg)
           | None \<Rightarrow> (s\<lparr>terminals := AList.delete termId (terminals s)\<rparr>, [PtyKill term], CloseOk)))"

text \<open>The closure given to \<^verbatim>\<open>term.onData\<close>, for the \<open>termId\<close> it captured.\<close>

definition onData :: "app_state \<Rightarrow> string \<Rightarrow> string \<Rightarrow> app_state \<times> effect list" where
  "onData s termId data = (s, if mainWindow s then [SendTerminalOutput termId data] else [])"

text \<open>The closure given to \<^verbatim>\<open>term.onExit\<close>, for the \<open>termId\<close> it captured.\<close>

definition onExit :: "app_state \<Rightarrow> string \<Rightarrow> app_state \<times> effect list" where
  "onExit s termId =
     (s\<lparr>terminals := AList.delete termId (terminals s)\<rparr>,
      if mainWindow s then [SendTerminalClosed termId] else [])"

text \<open>
  The listener of the window's \<^verbatim>\<open>closed\<close> event: every terminal is killed (an exception
  of \<^verbatim>\<open>kill\<close> is swallowed) and the map is cleared.
\<close>

definition window_closed :: "app_state \<Rightarrow> app_state \<times> effect list" where
  "window_closed s =
     (s\<lparr>mainWindow := False, terminals := []\<rparr>, map (\<lambda>(termId, term). PtyKill term) (terminals s))"

text \<open>\<^verbatim>\<open>createWindow\<close>, which the application runs again when it is activated with no window.\<close>

definition createWindow :: "app_state \<Rightarrow> app_state \<times> effect list" where
  "createWindow s = (s\<lparr>mainWindow := True\<rparr>, [])"

subsection \<open>The event loop\<close>

text \<open>
  What reaches the main process: requests of the renderer, the data and exit events of
  the spawned terminals, the window's \<^verbatim>\<open>closed\<close> event and the opening of a new window. An event of a terminal runs
  the closure bound to that terminal at its spawn.
\<close>

datatype event =
    CreateTerminal string create_options
  | TerminalInput string string
  | TerminalResize string int int
  | CloseTerminal string
  | TermData pty_term string
  | TermExit pty_term
  | WindowClosed
  | WindowCreated

fun step :: "host \<Rightarrow> app_state \<Rightarrow> event \<Rightarrow> app_state \<times> effect list" where
  "step h s (CreateTerminal termId options) =
     (fst (create_terminal h s termId options), fst (snd (create_terminal h s termId options)))"
| "step h s (TerminalInput termId data) = terminal_input h s termId data"
| "step h s (TerminalResize termId cols rows) = terminal_resize h s termId cols rows"
| "step h s (CloseTerminal termId) =
     (fst (close_terminal h s termId), fst (snd (close_terminal h s termId)))"
| "step h s (TermData term data) =
     (case map_of (listeners s) term of None \<Rightarrow> (s, []) | Some termId \<Rightarrow> onData s termId data)"
| "step h s (TermExit term) =
     (case map_of (listeners s) term of None \<Rightarrow> (s, []) | Some termId \<Rightarrow> onExit s termId)"
| "step h s WindowClosed = window_closed s"
| "step h s WindowCreated = createWindow s"

text \<open>
  A run of the loop: the events in order, each with the answers of the platform at its
  time, the effects concatenated.
\<close>

fun run :: "app_state \<Rightarrow> (host \<times> event) list \<Rightarrow> app_state \<times> effect list" where
  "run s [] = (s, [])"
| "run s (he # hes) =
     (let r = step (fst he) s (snd he); q = run (fst r) hes in (fst q, snd r @ snd q))"

subsection \<open>Tmux discovery\<close>

text \<open>One element of the result of \<^verbatim>\<open>list-tmux-sessions\<close>.\<close>

record tmux_session =
  session_name :: string
  session_windows :: js_number
  session_attached :: bool

text \<open>
  The \<^verbatim>\<open>map\<close> callback: the first three pieces of the line are destructured; a piece that
  is missing is \<^verbatim>\<open>undefined\<close>.
\<close>

definition nth_opt :: "'a list \<Rightarrow> nat \<Rightarrow> 'a option" where
  "nth_opt xs i = (if i < length xs then Some (xs ! i) else None)"

definition parse_session_line :: "string \<Rightarrow> tmux_session" where
  "parse_session_line line =
     (let parts = split CHR '':'' line
      in \<lparr>session_name = hd parts,
          session_windows = parseInt (nth_opt parts 1),
          session_attached = (nth_opt parts 2 = Some ''1'')\<rparr>)"

text \<open>
  The callback of \<^verbatim>\<open>exec\<close> in \<^verbatim>\<open>list-tmux-sessions\<close>: \<open>error\<close> is the error of the
  invocation (\<^verbatim>\<open>null\<close> when tmux ran and exited with status 0), \<open>stdout\<close> its output.
\<close>

definition list_tmux_sessions :: "string option \<Rightarrow> string \<Rightarrow> tmux_session list" where
  "list_tmux_sessions error stdout =
     (case error of
        Some e \<Rightarrow> []
      | None \<Rightarrow> map parse_session_line (filter (\<lambda>line. line \<noteq> []) (split (CHR 0x0A) (trim stdout))))"

subsection \<open>Notions used to state the properties\<close>

text \<open>
  Containment of an absolute path in the workspace root by whole segments: the path is the
  root itself or continues it after a separator.
\<close>

definition inside_root :: "string \<Rightarrow> string \<Rightarrow> bool" where
  "inside_root root fullPath = (fullPath = root \<or> startsWith fullPath (root @ ''/''))"

text \<open>
  The path continues the text of the root with a character that is no separator: it
  names a sibling of the root whose name begins with the root's name, or a path below
  such a sibling.
\<close>

definition extends_root_name :: "string \<Rightarrow> string \<Rightarrow> bool" where
  "extends_root_name root fullPath =
     (startsWith fullPath root \<and>
      (case drop (length root) fullPath of [] \<Rightarrow> False | c # cs \<Rightarrow> c \<noteq> CHR ''/''))"

text \<open>
  A consistent comparison function in the sense of \<^verbatim>\<open>Array.prototype.sort\<close>: the signs of
  \<open>compare a b\<close> and \<open>compare b a\<close> are opposite, and \<open>\<le> 0\<close> is transitive.
\<close>

definition consistent_compare :: "('a \<Rightarrow> 'a \<Rightarrow> int) \<Rightarrow> bool" where
  "consistent_compare compare =
     ((\<forall>a b. (compare a b < 0) = (0 < compare b a)) \<and>
      (\<forall>a b c. compare a b \<le> 0 \<and> compare b c \<le> 0 \<longrightarrow> compare a c \<le> 0))"

text \<open>The order of two listed entries by their lower-cased names.\<close>

definition name_order :: "host \<Rightarrow> file_entry \<Rightarrow> file_entry \<Rightarrow> bool" where
  "name_order h a b =
     (localeCompare h (toLowerCase (entry_name a)) (toLowerCase (entry_name b)) \<le> 0)"

text \<open>An input or resize request for the terminal \<open>termId\<close>.\<close>

fun input_or_resize_for :: "string \<Rightarrow> event \<Rightarrow> bool" where
  "input_or_resize_for termId (TerminalInput i d) = (i = termId)"
| "input_or_resize_for termId (TerminalResize i c r) = (i = termId)"
| "input_or_resize_for termId e = False"

text \<open>How often \<^verbatim>\<open>terminal-closed\<close> is pushed for \<open>termId\<close> in a list of effects.\<close>

definition closed_count :: "string \<Rightarrow> effect list \<Rightarrow> nat" where
  "closed_count termId effs = length (filter (\<lambda>e. e = SendTerminalClosed termId) effs)"

text \<open>
  Every terminal object that the state knows was created by an earlier spawn, so the next
  spawn creates a new one.
\<close>

definition terms_fresh :: "app_state \<Rightarrow> bool" where
  "terms_fresh s =
     ((\<forall>entry \<in> set (terminals s). snd entry < next_term s) \<and>
      (\<forall>binding \<in> set (listeners s). fst binding < next_term s))"





text \<open>
  What \<^verbatim>\<open>tmux list-sessions -F "#{session_name}:#{session_windows}:#{session_attached}"\<close>
  prints for sessions given by name, number of windows and number of attached clients:
  one line per session, the two numbers in decimal.
\<close>

fun decimal :: "nat \<Rightarrow> string" where
  "decimal n =
     (if n < 10 then [''0123456789'' ! n]
      else decimal (n div 10) @ [''0123456789'' ! (n mod 10)])"

definition tmux_line :: "string \<times> nat \<times> nat \<Rightarrow> string" where
  "tmux_line session =
     (case session of (name, windows, clients) \<Rightarrow>
        name @ '':'' @ decimal windows @ '':'' @ decimal clients)"

definition tmux_output :: "(string \<times> nat \<times> nat) list \<Rightarrow> string" where
  "tmux_output sessions = concat (map (\<lambda>session. tmux_line session @ [CHR 0x0A]) sessions)"

subsection \<open>A concrete host\<close>

text \<open>A collation: the order of the code units.\<close>

definition code_unit_compare :: "string \<Rightarrow> string \<Rightarrow> int" where
  "code_unit_compare a b = (if a < b then - 1 else if a = b then 0 else 1)"

definition example_entries :: "dirent list" where
  "example_entries =
     [\<lparr>dirent_name = ''b.txt'', dirent_isDirectory = False\<rparr>,
      \<lparr>dirent_name = ''A.tex'', dirent_isDirectory = False\<rparr>,
      \<lparr>dirent_name = ''.hidden'', dirent_isDirectory = False\<rparr>,
      \<lparr>dirent_name = ''sub'', dirent_isDirectory = True\<rparr>]"

text \<open>
  A machine whose user has the project \<^verbatim>\<open>/home/u/proj\<close> (with the four children above)
  next to a directory \<^verbatim>\<open>/home/u/proj2\<close> that holds \<^verbatim>\<open>x.tex\<close>.
\<close>

definition example_host :: host where
  "example_host =
     \<lparr>homedir = ''/home/u'',
      process_cwd = ''/home/u'',
      env_SHELL = Some ''/bin/zsh'',
      pty_loaded = True,
      statSync = (\<lambda>p. if p \<in> set [''/home/u'', ''/home/u/proj'', ''/home/u/proj/sub'', ''/home/u/proj2'']
                         then Inr \<lparr>stats_isDirectory = True, stats_mtimeMs = 1000\<rparr>
                       else if p \<in> set [''/home/u/proj/b.txt'', ''/home/u/proj/A.tex'',
                                         ''/home/u/proj/.hidden'', ''/home/u/proj2/x.tex'']
                         then Inr \<lparr>stats_isDirectory = False, stats_mtimeMs = 2000\<rparr>
                       else Inl ''ENOENT: no such file or directory''),
      readdirSync = (\<lambda>p. if p = ''/home/u/proj'' then Inr example_entries
                          else if p = ''/home/u/proj2''
                            then Inr [\<lparr>dirent_name = ''x.tex'', dirent_isDirectory = False\<rparr>]
                          else Inl ''ENOENT: no such file or directory''),
      readFileSync = (\<lambda>p. if p = ''/home/u/proj2/x.tex'' then Inr ''secret''
                           else Inl ''ENOENT: no such file or directory''),
      writeFileSync = (\<lambda>p content. None),
      spawn_throws = (\<lambda>shell args settings. None),
      write_throws = (\<lambda>term data. None),
      resize_throws = (\<lambda>term cols rows. None),
      kill_throws = (\<lambda>term. None),
      localeCompare = code_unit_compare\<rparr>"

definition example_state :: app_state where
  "example_state = initial_state\<lparr>currentDirectory := Some ''/home/u/proj''\<rparr>"

definition plain_options :: create_options where
  "plain_options =
     \<lparr>options_type = None, options_session = None, options_cols = None, options_rows = None\<rparr>"

text \<open>The state after one plain shell was created under the id \<^verbatim>\<open>t1\<close>.\<close>

definition one_terminal_state :: app_state where
  "one_terminal_state = fst (create_terminal example_host example_state ''t1'' plain_options)"

text \<open>A host on which every write to and resize of a terminal throws.\<close>

definition failing_host :: host where
  "failing_host =
     example_host\<lparr>write_throws := (\<lambda>term data. Some ''EIO''),
                   resize_throws := (\<lambda>term cols rows. Some ''EIO'')\<rparr>"

definition tmux_options :: create_options where
  "tmux_options =
     \<lparr>options_type = Some ''tmux'', options_session = Some ''proj'', options_cols = None,
      options_rows = Some 40\<rparr>"

section \<open>Properties of the file handlers\<close>

subsection \<open>The containment check\<close>

lemma startsWith_append:
  assumes "startsWith s (p @ q)"
  shows "startsWith s p"
proof -
  from assms have whole: "take (length p + length q) s = p @ q"
    by (simp add: startsWith_def)
  have "take (length p) s = take (length p) (take (length p + length q) s)"
    by (simp add: min_def)
  also have "\<dots> = p"
    by (simp add: whole)
  finally show ?thesis by (simp add: startsWith_def)
qed

lemma inside_root_startsWith:
  assumes "inside_root root fullPath"
  shows "startsWith fullPath root"
proof -
  from assms consider "fullPath = root" | "startsWith fullPath (root @ ''/'')"
    by (auto simp: inside_root_def)
  then show ?thesis
  proof cases
    case 1
    then show ?thesis by (simp add: startsWith_def)
  next
    case 2
    then show ?thesis by (rule startsWith_append)
  qed
qed

lemma startsWith_cases:
  assumes "startsWith fullPath root"
  shows "inside_root root fullPath \<or> extends_root_name root fullPath"
proof -
  from assms have full: "fullPath = root @ drop (length root) fullPath"
    by (metis append_take_drop_id startsWith_def)
  show ?thesis
  proof (cases "drop (length root) fullPath")
    case Nil
    with full have "fullPath = root" by simp
    then show ?thesis by (simp add: inside_root_def)
  next
    case (Cons c cs)
    show ?thesis
    proof (cases "c = CHR ''/''")
      case True
      with Cons full have "fullPath = (root @ ''/'') @ cs" by simp
      then have "startsWith fullPath (root @ ''/'')"
        by (simp add: startsWith_def)
      then show ?thesis by (simp add: inside_root_def)
    next
      case False
      with Cons assms show ?thesis by (simp add: extends_root_name_def)
    qed
  qed
qed

text \<open>
  C1 (as amended). With a workspace root set, let a non-empty relative path be joined to
  the root and normalized. If the result does not lie inside the root by whole segments,
  and is not a path that merely continues the root's name without a separator, then every
  file handler refuses the request without any call to the filesystem: \<^verbatim>\<open>list-files\<close>,
  \<^verbatim>\<open>read-file\<close> and \<^verbatim>\<open>save-file\<close> answer with the error \<^verbatim>\<open>Invalid path\<close>, \<^verbatim>\<open>get-file-path\<close>
  with \<^verbatim>\<open>null\<close> and \<^verbatim>\<open>get-file-mtime\<close> with \<^verbatim>\<open>{mtime: null}\<close>.
\<close>

theorem prefix_check_rejects:
  assumes root: "currentDirectory s = Some root" "root \<noteq> []"
    and path: "relativePath \<noteq> []"
    and outside: "\<not> inside_root root (path_join root relativePath)"
    and apart: "\<not> extends_root_name root (path_join root relativePath)"
  shows "list_files h s (Some relativePath) = ([], ListError ''Invalid path'' []) \<and>
         read_file h s (Some relativePath) = ([], ReadError ''Invalid path'') \<and>
         save_file h s (Some relativePath) content = ([], SaveError ''Invalid path'') \<and>
         get_file_path h s (Some relativePath) = ([], None) \<and>
         get_file_mtime h s (Some relativePath) = ([], MtimeNull)"
proof -
  have refused: "\<not> startsWith (path_join root relativePath) root"
    using outside apart startsWith_cases by blast
  have "list_files h s (Some relativePath) = ([], ListError ''Invalid path'' [])"
    using root path refused by (simp add: list_files_def truthy_def)
  moreover have "read_file h s (Some relativePath) = ([], ReadError ''Invalid path'')"
    using root path refused by (simp add: read_file_def truthy_def)
  moreover have "save_file h s (Some relativePath) content = ([], SaveError ''Invalid path'')"
    using root path refused by (simp add: save_file_def truthy_def)
  moreover have "get_file_path h s (Some relativePath) = ([], None)"
    using root path refused by (simp add: get_file_path_def truthy_def)
  moreover have "get_file_mtime h s (Some relativePath) = ([], MtimeNull)"
    using root path refused by (simp add: get_file_mtime_def truthy_def)
  ultimately show ?thesis by blast
qed

theorem prefix_check_rejects_witness:
  "path_join ''/home/u/proj'' ''../../etc/passwd'' = ''/home/etc/passwd'' \<and>
   \<not> inside_root ''/home/u/proj'' ''/home/etc/passwd'' \<and>
   \<not> extends_root_name ''/home/u/proj'' ''/home/etc/passwd'' \<and>
   list_files example_host example_state (Some ''../../etc/passwd'') = ([], ListError ''Invalid path'' []) \<and>
   read_file example_host example_state (Some ''../../etc/passwd'') = ([], ReadError ''Invalid path'') \<and>
   save_file example_host example_state (Some ''../../etc/passwd'') ''x'' = ([], SaveError ''Invalid path'') \<and>
   get_file_path example_host example_state (Some ''../../etc/passwd'') = ([], None) \<and>
   get_file_mtime example_host example_state (Some ''../../etc/passwd'') = ([], MtimeNull)"
proof -
  have root: "currentDirectory example_state = Some ''/home/u/proj''" "''/home/u/proj'' \<noteq> []"
    by (simp_all add: example_state_def)
  have path: "''../../etc/passwd'' \<noteq> []" by simp
  have joined: "path_join ''/home/u/proj'' ''../../etc/passwd'' = ''/home/etc/passwd''"
    by (simp add: path_join_def normalize_def isAbsolute_def)
  have outside: "\<not> inside_root ''/home/u/proj'' (path_join ''/home/u/proj'' ''../../etc/passwd'')"
    by (simp add: joined inside_root_def startsWith_def)
  have apart: "\<not> extends_root_name ''/home/u/proj'' (path_join ''/home/u/proj'' ''../../etc/passwd'')"
    by (simp add: joined extends_root_name_def startsWith_def)
  from prefix_check_rejects [OF root path outside apart, of example_host "''x''"] outside apart
  show ?thesis by (simp add: joined)
qed

text \<open>
  The claim as stated asks for containment by whole segments and for an error from every
  handler. The check is a comparison of strings: from the root \<^verbatim>\<open>/home/u/proj\<close> the path
  \<^verbatim>\<open>../proj2/x.tex\<close> leads into the sibling \<^verbatim>\<open>/home/u/proj2\<close>, which is not inside the
  root and still passes, so all five handlers call the filesystem there. And where the
  check refuses a path, \<^verbatim>\<open>get-file-path\<close> and \<^verbatim>\<open>get-file-mtime\<close> answer with their empty
  values, not with an error.
\<close>

theorem sibling_directory_counterexample:
  "path_join ''/home/u/proj'' ''../proj2/x.tex'' = ''/home/u/proj2/x.tex'' \<and>
   \<not> inside_root ''/home/u/proj'' ''/home/u/proj2/x.tex'' \<and>
   extends_root_name ''/home/u/proj'' ''/home/u/proj2/x.tex'' \<and>
   currentDirectory example_state = Some ''/home/u/proj'' \<and>
   read_file example_host example_state (Some ''../proj2/x.tex'')
     = ([FsReadFile ''/home/u/proj2/x.tex''], ReadOk ''../proj2/x.tex'' ''secret'') \<and>
   save_file example_host example_state (Some ''../proj2/x.tex'') ''new''
     = ([FsWriteFile ''/home/u/proj2/x.tex'' ''new''], SaveOk ''../proj2/x.tex'') \<and>
   get_file_path example_host example_state (Some ''../proj2/x.tex'')
     = ([FsExists ''/home/u/proj2/x.tex''], Some ''/home/u/proj2/x.tex'') \<and>
   get_file_mtime example_host example_state (Some ''../proj2/x.tex'')
     = ([FsStat ''/home/u/proj2/x.tex''], Mtime 2000 ''../proj2/x.tex'') \<and>
   fst (list_files example_host example_state (Some ''../proj2'')) = [FsReaddir ''/home/u/proj2''] \<and>
   \<not> inside_root ''/home/u/proj'' (path_join ''/home/u/proj'' ''../other'') \<and>
   get_file_path example_host example_state (Some ''../other'') = ([], None) \<and>
   get_file_mtime example_host example_state (Some ''../other'') = ([], MtimeNull)"
  by (simp add: inside_root_def extends_root_name_def startsWith_def path_join_def normalize_def
      isAbsolute_def read_file_def save_file_def get_file_path_def get_file_mtime_def list_files_def
      existsSync_def truthy_def example_state_def initial_state_def example_host_def Let_def)

subsection \<open>The empty path\<close>

text \<open>
  C9. With or without a workspace root, \<^verbatim>\<open>read-file\<close>, \<^verbatim>\<open>save-file\<close>, \<^verbatim>\<open>get-file-path\<close>
  and \<^verbatim>\<open>get-file-mtime\<close> called with the empty relative path do not fall back to the root:
  the first two answer with the error \<^verbatim>\<open>Invalid request\<close>, the last two with \<^verbatim>\<open>null\<close> and
  \<^verbatim>\<open>{mtime: null}\<close>, and none of them calls the filesystem.
\<close>

theorem empty_path_is_invalid:
  "read_file h s (Some []) = ([], ReadError ''Invalid request'') \<and>
   save_file h s (Some []) content = ([], SaveError ''Invalid request'') \<and>
   get_file_path h s (Some []) = ([], None) \<and>
   get_file_mtime h s (Some []) = ([], MtimeNull)"
  by (simp add: read_file_def save_file_def get_file_path_def get_file_mtime_def truthy_def)

theorem empty_path_is_invalid_witness:
  "truthy (currentDirectory example_state) \<and>
   read_file example_host example_state (Some []) = ([], ReadError ''Invalid request'') \<and>
   save_file example_host example_state (Some []) ''x'' = ([], SaveError ''Invalid request'') \<and>
   get_file_path example_host example_state (Some []) = ([], None) \<and>
   get_file_mtime example_host example_state (Some []) = ([], MtimeNull)"
  using empty_path_is_invalid [of example_host example_state "''x''"]
  by (simp add: example_state_def initial_state_def truthy_def)

subsection \<open>Sorting with a consistent comparison\<close>

lemma consistent_compare_total:
  "consistent_compare c \<Longrightarrow> \<not> c a b \<le> 0 \<Longrightarrow> c b a \<le> 0"
  unfolding consistent_compare_def by (metis less_le_not_le linorder_not_le)

lemma consistent_compare_trans:
  "consistent_compare c \<Longrightarrow> c a b \<le> 0 \<Longrightarrow> c b d \<le> 0 \<Longrightarrow> c a d \<le> 0"
  unfolding consistent_compare_def by blast

lemma consistent_compare_strict:
  "consistent_compare c \<Longrightarrow> c a b < 0 \<Longrightarrow> \<not> c b a \<le> 0"
  unfolding consistent_compare_def by (metis linorder_not_le)

lemma mset_sort_insert: "mset (sort_insert c x ys) = add_mset x (mset ys)"
  by (induction ys) auto

lemma set_sort_insert: "set (sort_insert c x ys) = insert x (set ys)"
  by (induction ys) auto

lemma mset_array_sort: "mset (array_sort c xs) = mset xs"
  by (induction xs) (simp_all add: array_sort_def mset_sort_insert)

lemma set_array_sort: "set (array_sort c xs) = set xs"
  using mset_array_sort [of c xs] by (metis set_mset_mset)

lemma sorted_sort_insert:
  assumes c: "consistent_compare c"
  shows "sorted_wrt (\<lambda>a b. c a b \<le> 0) ys \<Longrightarrow> sorted_wrt (\<lambda>a b. c a b \<le> 0) (sort_insert c x ys)"
proof (induction ys)
  case Nil
  show ?case by simp
next
  case (Cons y ys)
  show ?case
  proof (cases "c x y \<le> 0")
    case True
    then have "\<forall>z \<in> set ys. c x z \<le> 0"
      using Cons.prems consistent_compare_trans [OF c] by auto
    with True Cons.prems show ?thesis by simp
  next
    case False
    then have "c y x \<le> 0" by (rule consistent_compare_total [OF c])
    with False Cons show ?thesis by (auto simp: set_sort_insert)
  qed
qed

lemma sorted_array_sort:
  "consistent_compare c \<Longrightarrow> sorted_wrt (\<lambda>a b. c a b \<le> 0) (array_sort c xs)"
proof (induction xs)
  case Nil
  show ?case by (simp add: array_sort_def)
next
  case (Cons x xs)
  then have "sorted_wrt (\<lambda>a b. c a b \<le> 0) (sort_insert c x (array_sort c xs))"
    by (simp add: sorted_sort_insert)
  then show ?case by (simp add: array_sort_def)
qed

lemma sorted_wrt_unique:
  "sorted_wrt R xs \<Longrightarrow> sorted_wrt R ys \<Longrightarrow> mset xs = mset ys \<Longrightarrow>
   (\<forall>a \<in> set xs. \<forall>b \<in> set xs. R a b \<and> R b a \<longrightarrow> a = b) \<Longrightarrow> xs = ys"
proof (induction xs arbitrary: ys)
  case Nil
  then show ?case by simp
next
  case (Cons x xs)
  then obtain y ys' where ys: "ys = y # ys'" by (cases ys) auto
  have sets: "set (x # xs) = set (y # ys')"
    using Cons.prems(3) ys by (metis set_mset_mset)
  have "x = y"
  proof (rule ccontr)
    assume neq: "x \<noteq> y"
    with sets have "x \<in> set ys'" and "y \<in> set xs" by auto
    then have "R y x" and "R x y"
      using Cons.prems(1,2) ys by auto
    moreover have "y \<in> set (x # xs)" using sets by simp
    ultimately show False using Cons.prems(4) neq by auto
  qed
  moreover have "xs = ys'"
  proof (rule Cons.IH)
    show "sorted_wrt R xs" using Cons.prems(1) by simp
    show "sorted_wrt R ys'" using Cons.prems(2) ys by simp
    show "mset xs = mset ys'" using Cons.prems(3) ys \<open>x = y\<close> by simp
    show "\<forall>a \<in> set xs. \<forall>b \<in> set xs. R a b \<and> R b a \<longrightarrow> a = b"
      using Cons.prems(4) by simp
  qed
  ultimately show ?case using ys by simp
qed

lemma consistent_compare_entries:
  assumes c: "consistent_compare (localeCompare h)"
  shows "consistent_compare (compare_entries h)"
proof -
  have anti: "(compare_entries h a b < 0) = (0 < compare_entries h b a)" for a b
    using c unfolding consistent_compare_def compare_entries_def by auto
  have trans: "compare_entries h a b \<le> 0 \<and> compare_entries h b d \<le> 0 \<longrightarrow> compare_entries h a d \<le> 0"
    for a b d
    using consistent_compare_trans [OF c]
    unfolding compare_entries_def by (auto split: if_splits)
  show ?thesis
    unfolding consistent_compare_def using anti trans by blast
qed

lemma directories_first:
  "sorted_wrt (\<lambda>a b. compare_entries h a b \<le> 0) files \<Longrightarrow>
   files = filter entry_isDirectory files @ filter (\<lambda>e. \<not> entry_isDirectory e) files"
proof (induction files)
  case Nil
  show ?case by simp
next
  case (Cons x xs)
  then have IH: "xs = filter entry_isDirectory xs @ filter (\<lambda>e. \<not> entry_isDirectory e) xs"
    by simp
  show ?case
  proof (cases "entry_isDirectory x")
    case True
    with IH show ?thesis by simp
  next
    case False
    have "\<forall>y \<in> set xs. \<not> entry_isDirectory y"
    proof
      fix y assume "y \<in> set xs"
      with Cons.prems have "compare_entries h x y \<le> 0" by simp
      with False show "\<not> entry_isDirectory y"
        by (auto simp: compare_entries_def split: if_splits)
    qed
    then have "filter entry_isDirectory xs = []" and "filter (\<lambda>e. \<not> entry_isDirectory e) xs = xs"
      by (simp_all add: filter_empty_conv filter_id_conv)
    with False show ?thesis by simp
  qed
qed

lemma group_sorted_by_name:
  assumes "sorted_wrt (\<lambda>a b. compare_entries h a b \<le> 0) files"
  shows "sorted_wrt (name_order h) (filter entry_isDirectory files) \<and>
         sorted_wrt (name_order h) (filter (\<lambda>e. \<not> entry_isDirectory e) files)"
proof -
  have "sorted_wrt (\<lambda>a b. compare_entries h a b \<le> 0) (filter entry_isDirectory files)"
    and "sorted_wrt (\<lambda>a b. compare_entries h a b \<le> 0) (filter (\<lambda>e. \<not> entry_isDirectory e) files)"
    using assms by (simp_all add: sorted_wrt_filter)
  then show ?thesis
    by (auto intro!: sorted_wrt_mono_rel [where P = "\<lambda>a b. compare_entries h a b \<le> 0" and Q = "name_order h"]
        simp: compare_entries_def name_order_def)
qed


lemma list_files_sorted_form:
  "\<exists>rel entries. files_of (snd (list_files h s arg)) =
     array_sort (compare_entries h)
       (map (to_file_entry rel) (filter allowed_entry (filter not_hidden entries)))"
proof (cases "\<exists>rel root files. snd (list_files h s arg) = Listing rel root files")
  case True
  then show ?thesis
    by (auto simp: list_files_def Let_def split: if_splits sum.splits)
next
  case False
  then have "files_of (snd (list_files h s arg)) = []"
    by (cases "snd (list_files h s arg)") (auto simp: list_files_def Let_def split: if_splits sum.splits)
  then have "files_of (snd (list_files h s arg)) =
     array_sort (compare_entries h) (map (to_file_entry []) (filter allowed_entry (filter not_hidden [])))"
    by (simp add: array_sort_def)
  then show ?thesis by blast
qed

lemma list_files_complete:
  "snd (list_files h s arg) = Listing rel root listed \<Longrightarrow>
   \<exists>entries. readdirSync h (if rel \<noteq> [] then path_join root rel else root) = Inr entries \<and>
     mset listed = mset (map (to_file_entry rel) (filter (\<lambda>e. not_hidden e \<and> allowed_entry e) entries))"
  by (auto simp: list_files_def Let_def mset_array_sort mset_filter filter_filter_mset conj_commute
      split: if_splits sum.splits option.splits)

lemma to_file_entry_name [simp]: "entry_name (to_file_entry rel d) = dirent_name d"
  by (simp add: to_file_entry_def Let_def)

lemma to_file_entry_isDirectory [simp]: "entry_isDirectory (to_file_entry rel d) = dirent_isDirectory d"
  by (simp add: to_file_entry_def Let_def)

lemma list_files_of_root:
  assumes root: "currentDirectory s = Some root" "root \<noteq> []"
    and arg: "arg = None \<or> arg = Some []"
    and dir: "readdirSync h root = Inr entries"
  shows "files_of (snd (list_files h s arg)) =
     array_sort (compare_entries h)
       (map (to_file_entry []) (filter allowed_entry (filter not_hidden entries)))"
proof -
  have "startsWith root root" by (simp add: startsWith_def)
  with root dir have "list_files h s None = ([FsReaddir root], Listing [] root
      (array_sort (compare_entries h)
        (map (to_file_entry []) (filter allowed_entry (filter not_hidden entries)))))"
    and "list_files h s (Some []) = ([FsReaddir root], Listing [] root
      (array_sort (compare_entries h)
        (map (to_file_entry []) (filter allowed_entry (filter not_hidden entries)))))"
    by (simp_all add: list_files_def truthy_def)
  with arg show ?thesis by auto
qed

lemma kept_example:
  "map (to_file_entry []) (filter allowed_entry (filter not_hidden example_entries)) =
     [to_file_entry [] \<lparr>dirent_name = ''b.txt'', dirent_isDirectory = False\<rparr>,
      to_file_entry [] \<lparr>dirent_name = ''A.tex'', dirent_isDirectory = False\<rparr>,
      to_file_entry [] \<lparr>dirent_name = ''sub'', dirent_isDirectory = True\<rparr>]"
  by (simp add: example_entries_def not_hidden_def allowed_entry_def startsWith_def extname_def
      basename_def toLowerCase_def toLowerChar_def ALLOWED_EXTENSIONS_def)

lemma mset_three: "mset [x, y, z] = mset [z, y, x]"
  by (simp add: add_mset_commute)


lemma example_listing:
  assumes c: "consistent_compare (localeCompare h)"
    and root: "currentDirectory s = Some root" "root \<noteq> []"
    and arg: "arg = None \<or> arg = Some []"
    and dir: "readdirSync h root = Inr entries"
    and children: "mset entries = mset example_entries"
    and ab: "localeCompare h ''a.tex'' ''b.txt'' < 0"
  shows "map entry_name (files_of (snd (list_files h s arg))) = [''sub'', ''A.tex'', ''b.txt'']"
proof -
  let ?R = "\<lambda>a b. compare_entries h a b \<le> 0"
  let ?kept = "map (to_file_entry []) (filter allowed_entry (filter not_hidden entries))"
  define e_sub where "e_sub = to_file_entry [] \<lparr>dirent_name = ''sub'', dirent_isDirectory = True\<rparr>"
  define e_a where "e_a = to_file_entry [] \<lparr>dirent_name = ''A.tex'', dirent_isDirectory = False\<rparr>"
  define e_b where "e_b = to_file_entry [] \<lparr>dirent_name = ''b.txt'', dirent_isDirectory = False\<rparr>"
  have names: "entry_name e_sub = ''sub''" "entry_name e_a = ''A.tex''" "entry_name e_b = ''b.txt''"
    by (simp_all add: e_sub_def e_a_def e_b_def)
  have kinds: "entry_isDirectory e_sub" "\<not> entry_isDirectory e_a" "\<not> entry_isDirectory e_b"
    by (simp_all add: e_sub_def e_a_def e_b_def)
  have files: "files_of (snd (list_files h s arg)) = array_sort (compare_entries h) ?kept"
    using root arg dir by (rule list_files_of_root)
  have "mset ?kept =
      mset (map (to_file_entry []) (filter allowed_entry (filter not_hidden example_entries)))"
    by (simp add: children)
  also have "\<dots> = mset [e_b, e_a, e_sub]"
    by (simp only: kept_example e_sub_def e_a_def e_b_def)
  also have "\<dots> = mset [e_sub, e_a, e_b]"
    by (rule mset_three)
  finally have same: "mset [e_sub, e_a, e_b] = mset (array_sort (compare_entries h) ?kept)"
    by (simp add: mset_array_sort)
  have ba: "\<not> localeCompare h ''b.txt'' ''a.tex'' \<le> 0"
    by (rule consistent_compare_strict [where c = "localeCompare h", OF c ab])
  have lower: "toLowerCase ''A.tex'' = ''a.tex''" "toLowerCase ''b.txt'' = ''b.txt''"
    by (simp_all add: toLowerCase_def toLowerChar_def)
  have cmp: "compare_entries h e_sub e_a = - 1" "compare_entries h e_sub e_b = - 1"
    "compare_entries h e_a e_sub = 1" "compare_entries h e_b e_sub = 1"
    "compare_entries h e_a e_b = localeCompare h ''a.tex'' ''b.txt''"
    "compare_entries h e_b e_a = localeCompare h ''b.txt'' ''a.tex''"
    by (simp_all add: compare_entries_def names kinds lower)
  have sorted_target: "sorted_wrt ?R [e_sub, e_a, e_b]"
    using ab by (simp add: cmp)
  have anti: "\<forall>a \<in> set [e_sub, e_a, e_b]. \<forall>b \<in> set [e_sub, e_a, e_b]. ?R a b \<and> ?R b a \<longrightarrow> a = b"
    using ba by (simp add: cmp)
  have sorted_files: "sorted_wrt ?R (array_sort (compare_entries h) ?kept)"
    by (rule sorted_array_sort [OF consistent_compare_entries [OF c]])
  have "array_sort (compare_entries h) ?kept = [e_sub, e_a, e_b]"
    by (rule sorted_wrt_unique [where R = ?R, OF sorted_target sorted_files same anti, symmetric])
  then show ?thesis by (simp only: files list.map names)
qed

lemma consistent_code_unit_compare: "consistent_compare code_unit_compare"
  unfolding consistent_compare_def code_unit_compare_def
  by (auto split: if_splits)

subsection \<open>The listing\<close>

text \<open>
  C3. Where the collation of the host is a consistent comparison, every listing leaves out
  the entries whose name starts with a dot and the non-directories whose lower-cased
  extension is not allowed, puts all directories before all other entries, and has each
  of the two groups in the order of the lower-cased names; a successful listing holds
  exactly the entries of the directory that pass the two filters. In particular, for a
  root whose children are \<^verbatim>\<open>b.txt\<close>, \<^verbatim>\<open>A.tex\<close>, \<^verbatim>\<open>.hidden\<close> and the directory \<^verbatim>\<open>sub\<close> (in
  any order of the directory read) and a collation with \<^verbatim>\<open>a.tex\<close> before \<^verbatim>\<open>b.txt\<close>, the
  listing of the root is \<^verbatim>\<open>sub\<close>, \<^verbatim>\<open>A.tex\<close>, \<^verbatim>\<open>b.txt\<close>.
\<close>

theorem listing_filtered_and_sorted:
  assumes c: "consistent_compare (localeCompare h)"
    and files: "files = files_of (snd (list_files h s arg))"
  shows "(\<forall>e \<in> set files. \<not> startsWith (entry_name e) ''.'') \<and>
         (\<forall>e \<in> set files. \<not> entry_isDirectory e \<longrightarrow>
            toLowerCase (extname (entry_name e)) \<in> set ALLOWED_EXTENSIONS) \<and>
         files = filter entry_isDirectory files @ filter (\<lambda>e. \<not> entry_isDirectory e) files \<and>
         sorted_wrt (name_order h) (filter entry_isDirectory files) \<and>
         sorted_wrt (name_order h) (filter (\<lambda>e. \<not> entry_isDirectory e) files) \<and>
         (\<forall>rel root. snd (list_files h s arg) = Listing rel root files \<longrightarrow>
            (\<exists>entries. readdirSync h (if rel \<noteq> [] then path_join root rel else root) = Inr entries \<and>
               mset files = mset (map (to_file_entry rel)
                                    (filter (\<lambda>e. not_hidden e \<and> allowed_entry e) entries)))) \<and>
         (\<forall>root entries.
            currentDirectory s = Some root \<and> root \<noteq> [] \<and> (arg = None \<or> arg = Some []) \<and>
            readdirSync h root = Inr entries \<and> mset entries = mset example_entries \<and>
            localeCompare h ''a.tex'' ''b.txt'' < 0
            \<longrightarrow> map entry_name files = [''sub'', ''A.tex'', ''b.txt''])"
proof -
  obtain rel entries where form: "files = array_sort (compare_entries h)
      (map (to_file_entry rel) (filter allowed_entry (filter not_hidden entries)))"
    using list_files_sorted_form [of h s arg] files by blast
  have members: "set files = to_file_entry rel ` {d \<in> set entries. not_hidden d \<and> allowed_entry d}"
    by (auto simp: form set_array_sort)
  have hidden: "\<forall>e \<in> set files. \<not> startsWith (entry_name e) ''.''"
    using members by (auto simp: not_hidden_def)
  have allowed: "\<forall>e \<in> set files. \<not> entry_isDirectory e \<longrightarrow>
      toLowerCase (extname (entry_name e)) \<in> set ALLOWED_EXTENSIONS"
    using members by (auto simp: allowed_entry_def split: if_splits)
  have sorted: "sorted_wrt (\<lambda>a b. compare_entries h a b \<le> 0) files"
    unfolding form by (rule sorted_array_sort [OF consistent_compare_entries [OF c]])
  have complete: "\<forall>rel root. snd (list_files h s arg) = Listing rel root files \<longrightarrow>
      (\<exists>entries. readdirSync h (if rel \<noteq> [] then path_join root rel else root) = Inr entries \<and>
         mset files = mset (map (to_file_entry rel)
                              (filter (\<lambda>e. not_hidden e \<and> allowed_entry e) entries)))"
    by (intro allI impI) (rule list_files_complete)
  have example: "\<forall>root entries.
      currentDirectory s = Some root \<and> root \<noteq> [] \<and> (arg = None \<or> arg = Some []) \<and>
      readdirSync h root = Inr entries \<and> mset entries = mset example_entries \<and>
      localeCompare h ''a.tex'' ''b.txt'' < 0
      \<longrightarrow> map entry_name files = [''sub'', ''A.tex'', ''b.txt'']"
  proof (intro allI impI, elim conjE)
    fix root entries
    assume "currentDirectory s = Some root" "root \<noteq> []" "arg = None \<or> arg = Some []"
      "readdirSync h root = Inr entries" "mset entries = mset example_entries"
      "localeCompare h ''a.tex'' ''b.txt'' < 0"
    then show "map entry_name files = [''sub'', ''A.tex'', ''b.txt'']"
      unfolding files by (rule example_listing [OF c])
  qed
  note dirs = directories_first [OF sorted]
  note groups = group_sorted_by_name [OF sorted]
  show ?thesis
    using hidden allowed dirs groups complete example by (intro conjI) (simp_all only:)
qed

theorem listing_filtered_and_sorted_witness:
  "consistent_compare (localeCompare example_host) \<and>
   readdirSync example_host ''/home/u/proj'' = Inr example_entries \<and>
   localeCompare example_host ''a.tex'' ''b.txt'' < 0 \<and>
   map entry_name (files_of (snd (list_files example_host example_state (Some []))))
     = [''sub'', ''A.tex'', ''b.txt'']"
proof -
  have c: "consistent_compare (localeCompare example_host)"
    by (simp add: example_host_def consistent_code_unit_compare)
  have dir: "readdirSync example_host ''/home/u/proj'' = Inr example_entries"
    by (simp add: example_host_def)
  have ab: "localeCompare example_host ''a.tex'' ''b.txt'' < 0"
    by (simp add: example_host_def code_unit_compare_def)
  have root: "currentDirectory example_state = Some ''/home/u/proj''"
    by (simp add: example_state_def)
  note all = listing_filtered_and_sorted [where h = example_host and s = example_state
      and arg = "Some []", OF c refl]
  then have "\<forall>root entries.
      currentDirectory example_state = Some root \<and> root \<noteq> [] \<and>
      (Some [] = (None :: string option) \<or> Some ([] :: string) = Some []) \<and>
      readdirSync example_host root = Inr entries \<and> mset entries = mset example_entries \<and>
      localeCompare example_host ''a.tex'' ''b.txt'' < 0
      \<longrightarrow> map entry_name (files_of (snd (list_files example_host example_state (Some []))))
          = [''sub'', ''A.tex'', ''b.txt'']"
    by (elim conjE)
  then have "map entry_name (files_of (snd (list_files example_host example_state (Some []))))
      = [''sub'', ''A.tex'', ''b.txt'']"
    using root dir ab by blast
  with c dir ab show ?thesis by (intro conjI)
qed

subsection \<open>Choosing the workspace root\<close>

text \<open>
  C8. \<^verbatim>\<open>set-directory\<close> resolves the given path and checks that it exists and is a
  directory. If so, the workspace root becomes the resolved path and the answer is its
  path and name; if not, the answer is the error \<^verbatim>\<open>Directory not found\<close> and the state,
  with it the workspace root, is unchanged.
\<close>

theorem set_directory_verifies:
  "case set_directory h s dirPath of
     (s', effs, r) \<Rightarrow>
       (let fullPath = path_resolve (process_cwd h) (expandTilde (homedir h) dirPath)
        in if existsSync h fullPath \<and> (\<exists>st. statSync h fullPath = Inr st \<and> stats_isDirectory st)
           then s' = s\<lparr>currentDirectory := Some fullPath\<rparr> \<and>
                r = DirectoryInfo fullPath (basename fullPath) \<and>
                effs = [FsExists fullPath, FsStat fullPath]
           else s' = s \<and> r = DirectoryError ''Directory not found'')"
  by (auto simp: set_directory_def Let_def existsSync_def split: sum.splits)

theorem set_directory_verifies_witness:
  "set_directory example_host initial_state ''~/proj/'' =
     (initial_state\<lparr>currentDirectory := Some ''/home/u/proj''\<rparr>,
      [FsExists ''/home/u/proj'', FsStat ''/home/u/proj''],
      DirectoryInfo ''/home/u/proj'' ''proj'') \<and>
   set_directory example_host example_state ''/home/u/proj/A.tex'' =
     (example_state, [FsExists ''/home/u/proj/A.tex'', FsStat ''/home/u/proj/A.tex''],
      DirectoryError ''Directory not found'') \<and>
   set_directory example_host example_state ''/nowhere'' =
     (example_state, [FsExists ''/nowhere''], DirectoryError ''Directory not found'')"
  using set_directory_verifies [where h = example_host and s = initial_state and dirPath = "''~/proj/''"]
    set_directory_verifies [where h = example_host and s = example_state and dirPath = "''/home/u/proj/A.tex''"]
    set_directory_verifies [where h = example_host and s = example_state and dirPath = "''/nowhere''"]
  by (simp add: set_directory_def existsSync_def example_host_def path_resolve_def expandTilde_def
      isAbsolute_def basename_def Let_def)

section \<open>Properties of the terminal registry\<close>

lemma one_terminal_state_eq: "one_terminal_state = \<lparr>currentDirectory = Some ''/home/u/proj'', terminals = [(''t1'', 0)],
      mainWindow = True, listeners = [(0, ''t1'')], next_term = 1\<rparr>"
  by (simp add: one_terminal_state_def create_terminal_def example_host_def example_state_def initial_state_def
      plain_options_def spawn_command_def spawn_settings_def truthy_def truthy_num_def)

lemma input_absent: "map_of (terminals s) termId = None \<Longrightarrow> terminal_input h s termId data = (s, [])"
  by (simp add: terminal_input_def)

lemma resize_absent: "map_of (terminals s) termId = None \<Longrightarrow> terminal_resize h s termId cols rows = (s, [])"
  by (simp add: terminal_resize_def)

lemma close_absent: "map_of (terminals s) termId = None \<Longrightarrow> close_terminal h s termId = (s, [], CloseOk)"
  by (simp add: close_terminal_def)

text \<open>
  C4. For a terminal id with no entry in the registry, \<^verbatim>\<open>terminal-input\<close> and
  \<^verbatim>\<open>terminal-resize\<close> do nothing, \<^verbatim>\<open>close-terminal\<close> answers \<^verbatim>\<open>{status: 'ok'}\<close>, no call
  reaches node-pty, nothing is thrown and the state is unchanged.
\<close>

theorem unknown_session_is_noop:
  "map_of (terminals s) termId = None \<Longrightarrow>
   terminal_input h s termId data = (s, []) \<and>
   terminal_resize h s termId cols rows = (s, []) \<and>
   close_terminal h s termId = (s, [], CloseOk)"
  by (simp add: input_absent resize_absent close_absent)

theorem unknown_session_is_noop_witness:
  "map_of (terminals one_terminal_state) ''t2'' = None \<and>
   terminal_input example_host one_terminal_state ''t2'' ''ls'' = (one_terminal_state, []) \<and>
   terminal_resize example_host one_terminal_state ''t2'' 100 40 = (one_terminal_state, []) \<and>
   close_terminal example_host one_terminal_state ''t2'' = (one_terminal_state, [], CloseOk)"
proof -
  have absent: "map_of (terminals one_terminal_state) ''t2'' = None"
    by (simp add: one_terminal_state_eq)
  from unknown_session_is_noop [OF absent, of example_host "''ls''" 100 40] absent
  show ?thesis by simp
qed

lemma run_absent:
  "map_of (terminals s) termId = None \<Longrightarrow>
   \<forall>he \<in> set later. input_or_resize_for termId (snd he) \<Longrightarrow> run s later = (s, [])"
proof (induction later)
  case Nil
  show ?case by simp
next
  case (Cons he hes)
  from Cons.prems(2) have here: "input_or_resize_for termId (snd he)" by simp
  have "step (fst he) s (snd he) = (s, [])"
  proof (cases "snd he")
    case (TerminalInput i d)
    with here Cons.prems(1) show ?thesis by (simp add: input_absent)
  next
    case (TerminalResize i c r)
    with here Cons.prems(1) show ?thesis by (simp add: resize_absent)
  qed (use here in simp_all)
  moreover have "run s hes = (s, [])"
    using Cons.IH Cons.prems by simp
  ultimately show ?case by simp
qed

text \<open>
  C10. When the write or the resize on the terminal of a live session throws, the listener
  removes the session's entry from the registry, and every later input or resize request
  for the same id, whatever the platform answers then, changes nothing and reaches no
  terminal.
\<close>

theorem failed_handle_is_dropped:
  assumes live: "map_of (terminals s) termId = Some term"
    and failed: "(s' = fst (terminal_input h s termId data) \<and> write_throws h term data \<noteq> None) \<or>
                 (s' = fst (terminal_resize h s termId cols rows) \<and> resize_throws h term cols rows \<noteq> None)"
    and later: "\<forall>he \<in> set later. input_or_resize_for termId (snd he)"
  shows "map_of (terminals s') termId = None \<and> run s' later = (s', [])"
proof -
  from live failed have "s' = s\<lparr>terminals := AList.delete termId (terminals s)\<rparr>"
    by (auto simp: terminal_input_def terminal_resize_def)
  then have gone: "map_of (terminals s') termId = None"
    by (simp add: AList.delete_conv')
  with later show ?thesis by (simp add: run_absent)
qed

theorem failed_handle_is_dropped_witness:
  "map_of (terminals one_terminal_state) ''t1'' = Some 0 \<and>
   write_throws failing_host 0 ''ls'' = Some ''EIO'' \<and>
   map_of (terminals (fst (terminal_input failing_host one_terminal_state ''t1'' ''ls''))) ''t1'' = None \<and>
   run (fst (terminal_input failing_host one_terminal_state ''t1'' ''ls''))
     [(example_host, TerminalInput ''t1'' ''pwd''), (example_host, TerminalResize ''t1'' 100 40)]
   = (fst (terminal_input failing_host one_terminal_state ''t1'' ''ls''), [])"
proof -
  have live: "map_of (terminals one_terminal_state) ''t1'' = Some 0"
    by (simp add: one_terminal_state_eq)
  have throws: "write_throws failing_host 0 ''ls'' = Some ''EIO''"
    by (simp add: failing_host_def)
  have failed: "(fst (terminal_input failing_host one_terminal_state ''t1'' ''ls'')
        = fst (terminal_input failing_host one_terminal_state ''t1'' ''ls'') \<and>
       write_throws failing_host 0 ''ls'' \<noteq> None) \<or>
      (fst (terminal_input failing_host one_terminal_state ''t1'' ''ls'')
        = fst (terminal_resize failing_host one_terminal_state ''t1'' 0 0) \<and>
       resize_throws failing_host 0 0 0 \<noteq> None)"
    using throws by simp
  have later: "\<forall>he \<in> set [(example_host, TerminalInput ''t1'' ''pwd''),
      (example_host, TerminalResize ''t1'' 100 40)]. input_or_resize_for ''t1'' (snd he)"
    by simp
  from failed_handle_is_dropped [OF live failed later] live throws
  show ?thesis by simp
qed

text \<open>
  C2 (as amended). \<^verbatim>\<open>create-terminal\<close> does not look for an entry under the id. For an id
  that has a live entry: if node-pty is loaded and the spawn does not throw, the call
  spawns a new process, answers \<^verbatim>\<open>{status: 'ok', termId}\<close> and stores the new terminal
  under the id in place of the first one; otherwise it answers with an error and leaves
  the state unchanged. In neither case is the first terminal killed.
\<close>

theorem duplicate_create_replaces_entry:
  assumes live: "map_of (terminals s) termId = Some term"
  shows "case create_terminal h s termId options of
           (s', effs, r) \<Rightarrow>
             if pty_loaded h \<and>
                spawn_throws h (fst (spawn_command h options)) (snd (spawn_command h options))
                  (spawn_settings h s options) = None
             then r = CreateOk termId \<and>
                  effs = [PtySpawn (fst (spawn_command h options)) (snd (spawn_command h options))
                            (spawn_settings h s options)] \<and>
                  map_of (terminals s') = (map_of (terminals s))(termId \<mapsto> next_term s)
             else (\<exists>msg. r = CreateError msg) \<and> s' = s \<and> PtyKill term \<notin> set effs"
  by (auto simp: create_terminal_def Let_def AList.update_conv' split: option.splits)

theorem duplicate_create_replaces_entry_witness:
  "map_of (terminals one_terminal_state) ''t1'' = Some 0 \<and>
   snd (snd (create_terminal example_host one_terminal_state ''t1'' plain_options)) = CreateOk ''t1'' \<and>
   map_of (terminals (fst (create_terminal example_host one_terminal_state ''t1'' plain_options)))
     = (map_of (terminals one_terminal_state))(''t1'' \<mapsto> 1)"
proof -
  have live: "map_of (terminals one_terminal_state) ''t1'' = Some 0"
    by (simp add: one_terminal_state_eq)
  have ok: "pty_loaded example_host \<and>
      spawn_throws example_host (fst (spawn_command example_host plain_options))
        (snd (spawn_command example_host plain_options))
        (spawn_settings example_host one_terminal_state plain_options) = None"
    by (simp add: example_host_def)
  have nxt: "next_term one_terminal_state = 1"
    by (simp add: one_terminal_state_eq)
  from duplicate_create_replaces_entry [OF live, of example_host plain_options] ok nxt live
  show ?thesis by (simp split: prod.splits)
qed

text \<open>
  The claim as stated fails: a second \<^verbatim>\<open>create-terminal\<close> for the live id \<^verbatim>\<open>t1\<close> succeeds,
  spawns a second shell and replaces the entry of the first terminal by the second.
\<close>

theorem duplicate_create_counterexample:
  "map_of (terminals one_terminal_state) ''t1'' = Some 0 \<and>
   create_terminal example_host one_terminal_state ''t1'' plain_options =
     (one_terminal_state\<lparr>terminals := [(''t1'', 1)], listeners := [(0, ''t1''), (1, ''t1'')], next_term := 2\<rparr>,
      [PtySpawn ''/bin/zsh'' [''-l'']
         \<lparr>spawn_name = ''xterm-256color'', spawn_cols = 80, spawn_rows = 24, spawn_cwd = ''/home/u/proj''\<rparr>],
      CreateOk ''t1'')"
  by (simp add: one_terminal_state_eq create_terminal_def example_host_def
      plain_options_def spawn_command_def spawn_settings_def truthy_def truthy_num_def)

lemma create_terminal_effects:
  "pty_loaded h \<Longrightarrow>
   fst (snd (create_terminal h s termId options)) =
     [PtySpawn (fst (spawn_command h options)) (snd (spawn_command h options))
        (spawn_settings h s options)]"
  by (simp add: create_terminal_def Let_def split: option.splits)

lemma spawn_command_tmux:
  "options_type options = Some ''tmux'' \<Longrightarrow> options_session options = Some name \<Longrightarrow> name \<noteq> [] \<Longrightarrow>
   spawn_command h options = (''/opt/homebrew/bin/tmux'', [''attach'', ''-t'', name])"
  by (simp add: spawn_command_def truthy_def)

lemma spawn_command_shell:
  "\<not> (options_type options = Some ''tmux'' \<and> (\<exists>name. options_session options = Some name \<and> name \<noteq> [])) \<Longrightarrow>
   spawn_command h options =
     ((case env_SHELL h of None \<Rightarrow> ''/bin/bash'' | Some sh \<Rightarrow> if sh = [] then ''/bin/bash'' else sh),
      [''-l''])"
  by (auto simp: spawn_command_def truthy_def split: option.splits)

lemma spawn_settings_cwd:
  "spawn_cwd (spawn_settings h s options) =
     (case currentDirectory s of None \<Rightarrow> homedir h
      | Some root \<Rightarrow> if root = [] then homedir h else root)"
  by (simp add: spawn_settings_def truthy_def split: option.splits)

lemma spawn_settings_size:
  "spawn_cols (spawn_settings h s options) =
     (case options_cols options of None \<Rightarrow> 80 | Some c \<Rightarrow> if c = 0 then 80 else c) \<and>
   spawn_rows (spawn_settings h s options) =
     (case options_rows options of None \<Rightarrow> 24 | Some r \<Rightarrow> if r = 0 then 24 else r)"
  by (simp add: spawn_settings_def truthy_num_def split: option.splits)

text \<open>
  C6. With node-pty loaded, \<^verbatim>\<open>create-terminal\<close> makes exactly one spawn. For options of
  type \<^verbatim>\<open>tmux\<close> with a non-empty session name the command is \<^verbatim>\<open>/opt/homebrew/bin/tmux\<close>
  with the arguments \<^verbatim>\<open>attach -t name\<close>; otherwise it is the shell of the environment
  variable \<^verbatim>\<open>SHELL\<close> (\<^verbatim>\<open>/bin/bash\<close> when that is unset or empty) with the argument \<^verbatim>\<open>-l\<close>.
  The working directory is the workspace root, or the home directory when no root is
  set; the size is 80 columns by 24 rows where the options give no (or a zero) value.
\<close>

theorem spawn_policy:
  assumes loaded: "pty_loaded h"
  shows "fst (snd (create_terminal h s termId options)) =
           [PtySpawn (fst (spawn_command h options)) (snd (spawn_command h options))
              (spawn_settings h s options)] \<and>
         (\<forall>name. options_type options = Some ''tmux'' \<and> options_session options = Some name \<and> name \<noteq> []
            \<longrightarrow> spawn_command h options = (''/opt/homebrew/bin/tmux'', [''attach'', ''-t'', name])) \<and>
         (\<not> (options_type options = Some ''tmux'' \<and>
              (\<exists>name. options_session options = Some name \<and> name \<noteq> []))
            \<longrightarrow> spawn_command h options =
                  ((case env_SHELL h of None \<Rightarrow> ''/bin/bash''
                    | Some sh \<Rightarrow> if sh = [] then ''/bin/bash'' else sh), [''-l''])) \<and>
         spawn_cwd (spawn_settings h s options) =
           (case currentDirectory s of None \<Rightarrow> homedir h
            | Some root \<Rightarrow> if root = [] then homedir h else root) \<and>
         spawn_cols (spawn_settings h s options) =
           (case options_cols options of None \<Rightarrow> 80 | Some c \<Rightarrow> if c = 0 then 80 else c) \<and>
         spawn_rows (spawn_settings h s options) =
           (case options_rows options of None \<Rightarrow> 24 | Some r \<Rightarrow> if r = 0 then 24 else r)"
proof -
  note create_terminal_effects [OF loaded, of s termId options]
  moreover have "\<forall>name. options_type options = Some ''tmux'' \<and> options_session options = Some name \<and> name \<noteq> []
            \<longrightarrow> spawn_command h options = (''/opt/homebrew/bin/tmux'', [''attach'', ''-t'', name])"
    by (simp add: spawn_command_tmux)
  moreover have "\<not> (options_type options = Some ''tmux'' \<and>
              (\<exists>name. options_session options = Some name \<and> name \<noteq> []))
            \<longrightarrow> spawn_command h options =
                  ((case env_SHELL h of None \<Rightarrow> ''/bin/bash''
                    | Some sh \<Rightarrow> if sh = [] then ''/bin/bash'' else sh), [''-l''])"
    using spawn_command_shell [of options h] by blast
  moreover note spawn_settings_cwd [of h s options] spawn_settings_size [of h s options]
  ultimately show ?thesis by blast
qed

theorem spawn_policy_witness:
  "pty_loaded example_host \<and>
   fst (snd (create_terminal example_host initial_state ''t1'' tmux_options)) =
     [PtySpawn ''/opt/homebrew/bin/tmux'' [''attach'', ''-t'', ''proj'']
        \<lparr>spawn_name = ''xterm-256color'', spawn_cols = 80, spawn_rows = 40, spawn_cwd = ''/home/u''\<rparr>] \<and>
   fst (snd (create_terminal example_host example_state ''t2'' plain_options)) =
     [PtySpawn ''/bin/zsh'' [''-l'']
        \<lparr>spawn_name = ''xterm-256color'', spawn_cols = 80, spawn_rows = 24, spawn_cwd = ''/home/u/proj''\<rparr>]"
proof -
  have loaded: "pty_loaded example_host"
    by (simp add: example_host_def)
  from spawn_policy [OF loaded, of initial_state "''t1''" tmux_options]
    spawn_policy [OF loaded, of example_state "''t2''" plain_options] loaded
  show ?thesis
    by (simp add: example_host_def initial_state_def example_state_def tmux_options_def plain_options_def
        spawn_command_def spawn_settings_def truthy_def truthy_num_def)
qed

subsection \<open>The lifetime of a session\<close>




lemma closed_count_Nil: "closed_count termId [] = 0"
  by (simp add: closed_count_def)

lemma create_terminal_state:
  "fst (create_terminal h s termId options) = s \<or>
   fst (create_terminal h s termId options) =
     s\<lparr>terminals := AList.update termId (next_term s) (terminals s),
       listeners := listeners s @ [(next_term s, termId)],
       next_term := Suc (next_term s)\<rparr>"
  by (simp add: create_terminal_def Let_def split: option.splits)



lemma terminal_input_state:
  "fst (terminal_input h s termId data) = s \<or>
   fst (terminal_input h s termId data) = s\<lparr>terminals := AList.delete termId (terminals s)\<rparr>"
  by (simp add: terminal_input_def split: option.splits)

lemma terminal_resize_state:
  "fst (terminal_resize h s termId cols rows) = s \<or>
   fst (terminal_resize h s termId cols rows) = s\<lparr>terminals := AList.delete termId (terminals s)\<rparr>"
  by (simp add: terminal_resize_def split: option.splits)

lemma close_terminal_state:
  "fst (close_terminal h s termId) = s \<or>
   fst (close_terminal h s termId) = s\<lparr>terminals := AList.delete termId (terminals s)\<rparr>"
  by (simp add: close_terminal_def split: option.splits)






lemma terms_fresh_initial: "terms_fresh initial_state"
  by (simp add: terms_fresh_def initial_state_def)

lemma terms_fresh_delete:
  "terms_fresh s \<Longrightarrow> terms_fresh (s\<lparr>terminals := AList.delete i (terminals s)\<rparr>)"
  by (auto simp: terms_fresh_def AList.delete_eq)

lemma set_update_subset: "set (AList.update k v al) \<subseteq> insert (k, v) (set al)"
  by (induction al) auto

lemma terms_fresh_create:
  "terms_fresh s \<Longrightarrow>
   terms_fresh (s\<lparr>terminals := AList.update i (next_term s) (terminals s),
                   listeners := listeners s @ [(next_term s, j)],
                   next_term := Suc (next_term s)\<rparr>)"
  using set_update_subset [of i "next_term s" "terminals s"]
  by (fastforce simp: terms_fresh_def less_Suc_eq)

lemma terms_fresh_step: "terms_fresh s \<Longrightarrow> terms_fresh (fst (step h s e))"
proof (cases e)
  case (CreateTerminal i options)
  assume "terms_fresh s"
  with create_terminal_state [of h s i options] terms_fresh_create [of s i i] CreateTerminal
  show ?thesis by auto
next
  case (TerminalInput i d)
  assume "terms_fresh s"
  with terminal_input_state [of h s i d] terms_fresh_delete [of s i] TerminalInput
  show ?thesis by auto
next
  case (TerminalResize i c r)
  assume "terms_fresh s"
  with terminal_resize_state [of h s i c r] terms_fresh_delete [of s i] TerminalResize
  show ?thesis by auto
next
  case (CloseTerminal i)
  assume "terms_fresh s"
  with close_terminal_state [of h s i] terms_fresh_delete [of s i] CloseTerminal
  show ?thesis by auto
next
  case (TermData t d)
  assume "terms_fresh s"
  with TermData show ?thesis by (simp add: onData_def split: option.splits)
next
  case (TermExit t)
  assume "terms_fresh s"
  with TermExit terms_fresh_delete [of s] show ?thesis
    by (simp add: onExit_def split: option.splits)
next
  case WindowClosed
  assume "terms_fresh s"
  with WindowClosed show ?thesis by (simp add: window_closed_def terms_fresh_def)
next
  case WindowCreated
  assume "terms_fresh s"
  with WindowCreated show ?thesis by (simp add: createWindow_def terms_fresh_def)
qed

lemma terms_fresh_run: "terms_fresh s \<Longrightarrow> terms_fresh (fst (run s evs))"
  by (induction evs arbitrary: s) (simp_all add: Let_def terms_fresh_step)
















section \<open>Properties of the tmux discovery\<close>

lemma split_no_sep: "sep \<notin> set s \<Longrightarrow> split sep s = [s]"
  by (induction s) (auto simp: Let_def)

lemma split_append_sep: "sep \<notin> set a \<Longrightarrow> split sep (a @ sep # rest) = a # split sep rest"
  by (induction a) (auto simp: Let_def)

lemma parse_session_line_format:
  assumes "CHR '':'' \<notin> set name" "CHR '':'' \<notin> set windows" "CHR '':'' \<notin> set flag"
  shows "parse_session_line (name @ '':'' @ windows @ '':'' @ flag) =
     \<lparr>session_name = name, session_windows = parseInt (Some windows),
      session_attached = (flag = ''1'')\<rparr>"
proof -
  have "split CHR '':'' (name @ '':'' @ windows @ '':'' @ flag) = [name, windows, flag]"
    using assms by (simp add: split_append_sep split_no_sep)
  then show ?thesis
    by (simp add: parse_session_line_def nth_opt_def)
qed

lemma list_tmux_sessions_fixture:
  "list_tmux_sessions None (''proj:3:1'' @ [CHR 0x0A] @ ''build:1:0'' @ [CHR 0x0A]) =
     [\<lparr>session_name = ''proj'', session_windows = Num 3, session_attached = True\<rparr>,
      \<lparr>session_name = ''build'', session_windows = Num 1, session_attached = False\<rparr>]"
  by (simp add: list_tmux_sessions_def trim_def isWhiteSpace_def parse_session_line_def nth_opt_def
      parseInt_def parseIntString_def trimStart_def digitValue_def digitsValue_def upt_rec
      roundToDouble_def)

declare decimal.simps [simp del]

lemma digit_char: "d < 10 \<Longrightarrow> digitValue (''0123456789'' ! d) = Some d"
proof -
  assume "d < 10"
  then have "d \<in> {0,1,2,3,4,5,6,7,8,9}" by auto
  then show ?thesis
    by (auto simp: digitValue_def upt_rec)
qed

lemma decimal_digits: "\<forall>c \<in> set (decimal n). digitValue c \<noteq> None"
proof (induction n rule: decimal.induct)
  case (1 n)
  show ?case
  proof (cases "n < 10")
    case True
    then show ?thesis using digit_char [of n] by (simp add: decimal.simps [of n])
  next
    case False
    then show ?thesis using 1 digit_char [of "n mod 10"] by (simp add: decimal.simps [of n])
  qed
qed

lemma decimal_not_Nil: "decimal n \<noteq> []"
  by (simp add: decimal.simps [of n])

lemma decimal_value: "digitsValue 10 (map (\<lambda>c. the (digitValue c)) (decimal n)) = n"
proof (induction n rule: decimal.induct)
  case (1 n)
  show ?case
  proof (cases "n < 10")
    case True
    then show ?thesis using digit_char [of n] by (simp add: decimal.simps [of n] digitsValue_def)
  next
    case False
    then show ?thesis using 1 digit_char [of "n mod 10"]
      by (simp add: decimal.simps [of n] digitsValue_def)
  qed
qed

lemma digit_not_special:
  "digitValue c \<noteq> None \<Longrightarrow> \<not> isWhiteSpace c \<and> c \<noteq> CHR ''+'' \<and> c \<noteq> CHR ''-'' \<and> c \<noteq> CHR ''x''
     \<and> c \<noteq> CHR ''X'' \<and> c \<noteq> CHR '':'' \<and> c \<noteq> CHR 0x0A"
  by (auto simp: digitValue_def isWhiteSpace_def upt_rec split: if_splits)

lemma parseInt_digits:
  assumes nonempty: "s \<noteq> []" and digits: "\<forall>c \<in> set s. digitValue c \<noteq> None"
  shows "parseIntString s = roundToDouble (digitsValue 10 (map (\<lambda>c. the (digitValue c)) s))"
proof -
  obtain c cs where d: "s = c # cs"
    using nonempty by (cases s) auto
  have c: "digitValue c \<noteq> None" and cs: "\<forall>c \<in> set cs. digitValue c \<noteq> None"
    using digits d by simp_all
  note sp = digit_not_special [OF c]
  have trim: "trimStart s = s"
    using sp by (simp add: trimStart_def d)
  have sign: "hd s \<noteq> CHR ''+''" "hd s \<noteq> CHR ''-''"
    using sp by (simp_all add: d)
  have nothex: "take 2 s \<noteq> ''0x''" "take 2 s \<noteq> ''0X''"
  proof -
    show "take 2 s \<noteq> ''0x''"
    proof (cases cs)
      case Nil
      then show ?thesis by (simp add: d)
    next
      case (Cons c' cs')
      with cs have "digitValue c' \<noteq> None" by simp
      from digit_not_special [OF this] Cons show ?thesis by (simp add: d)
    qed
    show "take 2 s \<noteq> ''0X''"
    proof (cases cs)
      case Nil
      then show ?thesis by (simp add: d)
    next
      case (Cons c' cs')
      with cs have "digitValue c' \<noteq> None" by simp
      from digit_not_special [OF this] Cons show ?thesis by (simp add: d)
    qed
  qed
  have whole: "takeWhile (\<lambda>c. digitValue c \<noteq> None) s = s"
    using digits by (simp add: takeWhile_eq_all_conv)
  show ?thesis
    unfolding parseIntString_def trim Let_def
    by (simp only: sign nothex whole nonempty simp_thms if_False if_True)
qed

lemma parseInt_decimal: "parseIntString (decimal n) = roundToDouble n"
  using parseInt_digits [OF decimal_not_Nil decimal_digits, of n]
  by (simp add: decimal_value)

lemma roundToDouble_exact: "n < 2 ^ 53 \<Longrightarrow> roundToDouble n = Num (int n)"
  by (simp add: roundToDouble_def)

lemma roundToDouble_tie: "roundToDouble 9007199254740993 = Num 9007199254740992"
  by (simp add: roundToDouble_def Let_def)

lemma decimal_eq_1: "(decimal c = ''1'') = (c = 1)"
proof
  assume one: "decimal c = ''1''"
  have "c = digitsValue 10 (map (\<lambda>c. the (digitValue c)) (decimal c))"
    by (simp add: decimal_value)
  also have "\<dots> = 1"
    by (simp add: one digitValue_def digitsValue_def upt_rec)
  finally show "c = 1" .
next
  assume "c = 1"
  then show "decimal c = ''1''" by (simp add: decimal.simps [of "Suc 0"])
qed

lemma split_lines:
  "ls \<noteq> [] \<Longrightarrow> \<forall>l \<in> set ls. sep \<notin> set l \<Longrightarrow>
   split sep (butlast (concat (map (\<lambda>l. l @ [sep]) ls))) = ls"
proof (induction ls)
  case Nil
  then show ?case by simp
next
  case (Cons l rest)
  show ?case
  proof (cases rest)
    case Nil
    with Cons.prems show ?thesis by (simp add: butlast_append split_no_sep)
  next
    case (Cons l' rest')
    then have more: "concat (map (\<lambda>l. l @ [sep]) rest) \<noteq> []" by simp
    have "butlast (concat (map (\<lambda>l. l @ [sep]) (l # rest))) =
          l @ sep # butlast (concat (map (\<lambda>l. l @ [sep]) rest))"
      using more by (simp add: butlast_append)
    moreover have "split sep (butlast (concat (map (\<lambda>l. l @ [sep]) rest))) = rest"
      using Cons.IH Cons.prems Cons by simp
    ultimately show ?thesis using Cons.prems by (simp add: split_append_sep)
  qed
qed

lemma trim_lines:
  assumes nonempty: "out \<noteq> []" and first: "\<not> isWhiteSpace (hd out)"
    and ending: "last out = CHR 0x0A"
    and before: "butlast out \<noteq> []" "\<not> isWhiteSpace (last (butlast out))"
  shows "trim out = butlast out"
proof -
  have front: "dropWhile isWhiteSpace out = out"
    using nonempty first by (cases out) simp_all
  have out: "out = butlast out @ [CHR 0x0A]"
    using nonempty ending by (metis append_butlast_last_id)
  have lf: "isWhiteSpace (CHR 0x0A)" by (simp add: isWhiteSpace_def)
  have r: "rev out = CHR 0x0A # rev (butlast out)"
    by (subst out) simp
  have kept: "dropWhile isWhiteSpace (rev (butlast out)) = rev (butlast out)"
    using before by (cases "rev (butlast out)") (simp_all add: hd_rev)
  have "dropWhile isWhiteSpace (rev out) = dropWhile isWhiteSpace (rev (butlast out))"
    by (subst r) (simp add: lf)
  with kept have "dropWhile isWhiteSpace (rev out) = rev (butlast out)"
    by simp
  then show ?thesis by (simp add: trim_def front)
qed

lemma tmux_line_parsed:
  assumes name: "CHR '':'' \<notin> set name"
  shows "parse_session_line (tmux_line (name, windows, clients)) =
     \<lparr>session_name = name, session_windows = roundToDouble windows,
      session_attached = (clients = 1)\<rparr>"
proof -
  have nocolon: "CHR '':'' \<notin> set (decimal n)" for n
    using decimal_digits [of n] digit_not_special by blast
  have "split CHR '':'' (name @ '':'' @ decimal windows @ '':'' @ decimal clients) =
        [name, decimal windows, decimal clients]"
    using name nocolon by (simp add: split_append_sep split_no_sep)
  then show ?thesis
    by (simp add: parse_session_line_def tmux_line_def nth_opt_def parseInt_def parseInt_decimal
        decimal_eq_1)
qed

lemma tmux_line_shape:
  assumes "CHR 0x0A \<notin> set name"
  shows "CHR 0x0A \<notin> set (tmux_line (name, windows, clients)) \<and>
         tmux_line (name, windows, clients) \<noteq> [] \<and>
         \<not> isWhiteSpace (last (tmux_line (name, windows, clients)))"
proof -
  have nolf: "CHR 0x0A \<notin> set (decimal n)" for n
    using decimal_digits [of n] digit_not_special by blast
  have "last (decimal clients) \<in> set (decimal clients)"
    using decimal_not_Nil by simp
  then have "\<not> isWhiteSpace (last (decimal clients))"
    using decimal_digits [of clients] digit_not_special by blast
  then show ?thesis
    using assms nolf decimal_not_Nil by (simp add: tmux_line_def)
qed


lemma tmux_output_parsed:
  assumes names: "\<forall>session \<in> set sessions. CHR '':'' \<notin> set (fst session) \<and> CHR 0x0A \<notin> set (fst session)"
    and first: "sessions \<noteq> [] \<longrightarrow> \<not> isWhiteSpace (hd (tmux_output sessions))"
  shows "list_tmux_sessions None (tmux_output sessions) =
     map (\<lambda>(name, windows, clients).
            \<lparr>session_name = name, session_windows = roundToDouble windows,
             session_attached = (clients = 1)\<rparr>) sessions"
proof (cases "sessions = []")
  case True
  then show ?thesis
    by (simp add: tmux_output_def list_tmux_sessions_def trim_def)
next
  case False
  let ?lines = "map tmux_line sessions"
  let ?out = "tmux_output sessions"
  have out: "?out = concat (map (\<lambda>l. l @ [CHR 0x0A]) ?lines)"
    by (simp add: tmux_output_def comp_def)
  have shape: "\<forall>l \<in> set ?lines. CHR 0x0A \<notin> set l \<and> l \<noteq> [] \<and> \<not> isWhiteSpace (last l)"
  proof
    fix l assume "l \<in> set ?lines"
    then obtain name windows clients where "(name, windows, clients) \<in> set sessions"
      and l: "l = tmux_line (name, windows, clients)"
      by auto
    with names have "CHR 0x0A \<notin> set name" by fastforce
    then show "CHR 0x0A \<notin> set l \<and> l \<noteq> [] \<and> \<not> isWhiteSpace (last l)"
      unfolding l by (rule tmux_line_shape)
  qed
  have lines: "?lines \<noteq> []" using False by simp
  then have snoc: "?lines = butlast ?lines @ [last ?lines]" by simp
  have "?out = concat (map (\<lambda>l. l @ [CHR 0x0A]) (butlast ?lines)) @ last ?lines @ [CHR 0x0A]"
    by (subst out, subst snoc) simp
  then have but: "butlast ?out = concat (map (\<lambda>l. l @ [CHR 0x0A]) (butlast ?lines)) @ last ?lines"
    and ending: "last ?out = CHR 0x0A" and nonempty: "?out \<noteq> []"
    by (simp_all add: butlast_append)
  have "last ?lines \<in> set ?lines"
    using lines by (rule last_in_set)
  with shape have lastline: "last ?lines \<noteq> []" "\<not> isWhiteSpace (last (last ?lines))"
    by blast+
  have before: "butlast ?out \<noteq> []" "\<not> isWhiteSpace (last (butlast ?out))"
    using lastline by (simp_all add: but)
  have "trim ?out = butlast ?out"
    using nonempty first False ending before by (intro trim_lines) simp_all
  moreover have "split (CHR 0x0A) (butlast ?out) = ?lines"
    unfolding out using lines shape by (intro split_lines) simp_all
  moreover have "filter (\<lambda>line. line \<noteq> []) ?lines = ?lines"
    using shape by (simp add: filter_id_conv)
  ultimately have "list_tmux_sessions None ?out = map parse_session_line ?lines"
    by (simp add: list_tmux_sessions_def)
  also have "\<dots> = map (\<lambda>(name, windows, clients).
            \<lparr>session_name = name, session_windows = roundToDouble windows,
             session_attached = (clients = 1)\<rparr>) sessions"
    using names by (auto simp: tmux_line_parsed)
  finally show ?thesis .
qed

lemma fixture_output:
  "tmux_output [(''proj'', 3, 1), (''build'', 1, 0)] = ''proj:3:1'' @ [CHR 0x0A] @ ''build:1:0'' @ [CHR 0x0A]"
  by (simp add: tmux_output_def tmux_line_def decimal.simps [of 3] decimal.simps [of "Suc 0"]
      decimal.simps [of 0])

lemma tmux_output_parsed_exact:
  assumes names: "\<forall>session \<in> set sessions. CHR '':'' \<notin> set (fst session) \<and> CHR 0x0A \<notin> set (fst session)"
    and first: "sessions \<noteq> [] \<longrightarrow> \<not> isWhiteSpace (hd (tmux_output sessions))"
    and small: "\<forall>session \<in> set sessions. fst (snd session) < 2 ^ 53"
  shows "list_tmux_sessions None (tmux_output sessions) =
     map (\<lambda>(name, windows, clients).
            \<lparr>session_name = name, session_windows = Num (int windows),
             session_attached = (clients = 1)\<rparr>) sessions"
proof -
  have "map (\<lambda>(name, windows, clients).
            \<lparr>session_name = name, session_windows = roundToDouble windows,
             session_attached = (clients = 1)\<rparr>) sessions =
        map (\<lambda>(name, windows, clients).
            \<lparr>session_name = name, session_windows = Num (int windows),
             session_attached = (clients = 1)\<rparr>) sessions"
  proof (rule map_cong [OF refl])
    fix session assume "session \<in> set sessions"
    with small have "fst (snd session) < 2 ^ 53" by blast
    then show "(case session of (name, windows, clients) \<Rightarrow>
            \<lparr>session_name = name, session_windows = roundToDouble windows,
             session_attached = (clients = 1)\<rparr>) =
          (case session of (name, windows, clients) \<Rightarrow>
            \<lparr>session_name = name, session_windows = Num (int windows),
             session_attached = (clients = 1)\<rparr>)"
      by (cases session) (simp add: roundToDouble_exact)
  qed
  with tmux_output_parsed [OF names first] show ?thesis by simp
qed

text \<open>
  C5. When the invocation of tmux fails the result is the empty list, whatever was
  printed. The output \<^verbatim>\<open>proj:3:1\<close>, \<^verbatim>\<open>build:1:0\<close> (each line ended by a newline) yields
  the session \<^verbatim>\<open>proj\<close> with 3 windows, attached, and the session \<^verbatim>\<open>build\<close> with 1 window,
  not attached. In general, what tmux prints for any list of sessions whose names hold
  no colon and no newline (the first not starting with white space) is parsed into
  exactly these sessions, in order, each with its name, its number of windows as a
  double (the number itself where it is below \<open>2^53\<close>), and attached exactly when the third
  field is \<^verbatim>\<open>1\<close>; and a single line \<^verbatim>\<open>name:windows:flag\<close> whose three fields hold no colon
  yields the name, the number that \<^verbatim>\<open>parseInt\<close> reads from the second field, and attached
  exactly when the flag is \<^verbatim>\<open>1\<close>.
\<close>

theorem tmux_listing_parsed:
  "list_tmux_sessions (Some e) stdout = [] \<and>
   list_tmux_sessions None (''proj:3:1'' @ [CHR 0x0A] @ ''build:1:0'' @ [CHR 0x0A]) =
     [\<lparr>session_name = ''proj'', session_windows = Num 3, session_attached = True\<rparr>,
      \<lparr>session_name = ''build'', session_windows = Num 1, session_attached = False\<rparr>] \<and>
   ((\<forall>session \<in> set sessions. CHR '':'' \<notin> set (fst session) \<and> CHR 0x0A \<notin> set (fst session)) \<and>
    (sessions \<noteq> [] \<longrightarrow> \<not> isWhiteSpace (hd (tmux_output sessions))) \<longrightarrow>
      list_tmux_sessions None (tmux_output sessions) =
        map (\<lambda>(name, windows, clients).
               \<lparr>session_name = name, session_windows = roundToDouble windows,
                session_attached = (clients = 1)\<rparr>) sessions) \<and>
   ((\<forall>session \<in> set sessions. CHR '':'' \<notin> set (fst session) \<and> CHR 0x0A \<notin> set (fst session)) \<and>
    (sessions \<noteq> [] \<longrightarrow> \<not> isWhiteSpace (hd (tmux_output sessions))) \<and>
    (\<forall>session \<in> set sessions. fst (snd session) < 2 ^ 53) \<longrightarrow>
      list_tmux_sessions None (tmux_output sessions) =
        map (\<lambda>(name, windows, clients).
               \<lparr>session_name = name, session_windows = Num (int windows),
                session_attached = (clients = 1)\<rparr>) sessions) \<and>
   (CHR '':'' \<notin> set name \<and> CHR '':'' \<notin> set windows \<and> CHR '':'' \<notin> set flag \<longrightarrow>
      parse_session_line (name @ '':'' @ windows @ '':'' @ flag) =
        \<lparr>session_name = name, session_windows = parseInt (Some windows),
         session_attached = (flag = ''1'')\<rparr>)"
proof -
  have failure: "list_tmux_sessions (Some e) stdout = []"
    by (simp add: list_tmux_sessions_def)
  have whole: "(\<forall>session \<in> set sessions. CHR '':'' \<notin> set (fst session) \<and> CHR 0x0A \<notin> set (fst session)) \<and>
    (sessions \<noteq> [] \<longrightarrow> \<not> isWhiteSpace (hd (tmux_output sessions))) \<longrightarrow>
      list_tmux_sessions None (tmux_output sessions) =
        map (\<lambda>(name, windows, clients).
               \<lparr>session_name = name, session_windows = roundToDouble windows,
                session_attached = (clients = 1)\<rparr>) sessions"
    using tmux_output_parsed [of sessions] by blast
  have exact: "(\<forall>session \<in> set sessions. CHR '':'' \<notin> set (fst session) \<and> CHR 0x0A \<notin> set (fst session)) \<and>
    (sessions \<noteq> [] \<longrightarrow> \<not> isWhiteSpace (hd (tmux_output sessions))) \<and>
    (\<forall>session \<in> set sessions. fst (snd session) < 2 ^ 53) \<longrightarrow>
      list_tmux_sessions None (tmux_output sessions) =
        map (\<lambda>(name, windows, clients).
               \<lparr>session_name = name, session_windows = Num (int windows),
                session_attached = (clients = 1)\<rparr>) sessions"
    using tmux_output_parsed_exact [of sessions] by blast
  have line: "CHR '':'' \<notin> set name \<and> CHR '':'' \<notin> set windows \<and> CHR '':'' \<notin> set flag \<longrightarrow>
      parse_session_line (name @ '':'' @ windows @ '':'' @ flag) =
        \<lparr>session_name = name, session_windows = parseInt (Some windows),
         session_attached = (flag = ''1'')\<rparr>"
    using parse_session_line_format [of name windows flag] by blast
  from failure list_tmux_sessions_fixture whole exact line show ?thesis
    by (intro conjI)
qed

theorem tmux_listing_parsed_witness:
  "list_tmux_sessions (Some ''no server running'') ''junk'' = [] \<and>
   list_tmux_sessions None (tmux_output [(''work'', 12, 2)]) =
     [\<lparr>session_name = ''work'', session_windows = Num 12, session_attached = False\<rparr>] \<and>
   list_tmux_sessions None (tmux_output [(''big'', 9007199254740993, 1)]) =
     [\<lparr>session_name = ''big'', session_windows = Num 9007199254740992, session_attached = True\<rparr>] \<and>
   parse_session_line ''work:12:0'' =
     \<lparr>session_name = ''work'', session_windows = Num 12, session_attached = False\<rparr>"
proof -
  have names: "\<forall>session \<in> set [(''work'', 12 :: nat, 2 :: nat)].
      CHR '':'' \<notin> set (fst session) \<and> CHR 0x0A \<notin> set (fst session)"
    by simp
  have first: "[(''work'', 12 :: nat, 2 :: nat)] \<noteq> [] \<longrightarrow>
      \<not> isWhiteSpace (hd (tmux_output [(''work'', 12, 2)]))"
    by (simp add: tmux_output_def tmux_line_def isWhiteSpace_def)
  have small: "\<forall>session \<in> set [(''work'', 12 :: nat, 2 :: nat)]. fst (snd session) < 2 ^ 53"
    by simp
  have big_names: "\<forall>session \<in> set [(''big'', 9007199254740993 :: nat, 1 :: nat)].
      CHR '':'' \<notin> set (fst session) \<and> CHR 0x0A \<notin> set (fst session)"
    by simp
  have big_first: "[(''big'', 9007199254740993 :: nat, 1 :: nat)] \<noteq> [] \<longrightarrow>
      \<not> isWhiteSpace (hd (tmux_output [(''big'', 9007199254740993, 1)]))"
    by (simp add: tmux_output_def tmux_line_def isWhiteSpace_def)
  from tmux_listing_parsed [of "''no server running''" "''junk''" "[(''work'', 12, 2)]"
      "''work''" "''12''" "''0''"] names first small
    tmux_listing_parsed [of "''no server running''" "''junk''" "[(''big'', 9007199254740993, 1)]"
      "''work''" "''12''" "''0''"] big_names big_first
  show ?thesis
    by (simp add: parseInt_def parseIntString_def trimStart_def isWhiteSpace_def digitValue_def
        digitsValue_def upt_rec Let_def roundToDouble_def)
qed

end
